theory Spec2Isabelle
  imports Complex_Main "HOL-Library.Sublist"
begin

section \<open>Python values, documents and exceptions\<close>

text \<open>
  Times are counted in microseconds since the epoch, the resolution of Python's
  \<^verbatim>\<open>datetime\<close> and \<^verbatim>\<open>timedelta\<close>; their arithmetic is exact integer arithmetic.
\<close>

type_synonym time = int

datatype val =
    VNone
  | VBool bool
  | VInt int
  | VFloat rat
  | VDecimal rat
  | VStr string
  | VDatetime time
  | VOid string
  | VList "val list"
  | VDict "(string \<times> val) list"

text \<open>A Python \<^verbatim>\<open>dict\<close> with string keys (a JSON object, a MongoDB document, a JWT payload).\<close>

type_synonym doc = "string \<rightharpoonup> val"

text \<open>
  The exceptions the program raises or receives from its libraries. Only subclasses of
  \<^verbatim>\<open>Exception\<close> are modelled. \<open>HTTPException status detail headers\<close> is FastAPI's;
  \<open>ValidationError\<close> (pydantic) and \<open>UnknownHashError\<close> (passlib) are subclasses of
  \<^verbatim>\<open>ValueError\<close>; \<open>ExpiredSignatureError\<close> is a subclass of jwt's \<^verbatim>\<open>InvalidTokenError\<close>,
  and \<open>InvalidTokenError\<close> stands for every other instance of that class;
  \<open>InvalidId\<close> is bson's; \<open>TypeError\<close> and \<open>OverflowError\<close> are the builtin ones; \<open>ValueError msg\<close> and \<open>Exception msg\<close> are the builtin \<^verbatim>\<open>ValueError(msg)\<close> and \<^verbatim>\<open>Exception(msg)\<close>.
\<close>

datatype exn =
    HTTPException nat string "(string \<times> string) list"
  | PyMongoError
  | InvalidId
  | TypeError
  | OverflowError
  | ValueError string
  | ValidationError
  | UnknownHashError
  | ExpiredSignatureError
  | InvalidTokenError
  | Exception string
  | OtherError string

fun is_ValueError :: "exn \<Rightarrow> bool" where
  "is_ValueError (ValueError _) = True"
| "is_ValueError ValidationError = True"
| "is_ValueError UnknownHashError = True"
| "is_ValueError _ = False"

fun is_InvalidTokenError :: "exn \<Rightarrow> bool" where
  "is_InvalidTokenError ExpiredSignatureError = True"
| "is_InvalidTokenError InvalidTokenError = True"
| "is_InvalidTokenError _ = False"

fun is_PyMongoError :: "exn \<Rightarrow> bool" where
  "is_PyMongoError PyMongoError = True"
| "is_PyMongoError _ = False"

section \<open>Schemas (src/users/schemas/auth.py, src/product/schemas.py)\<close>

record user =
  user_id :: string
  email :: string
  username :: string
  full_name :: string
  password :: "string option"
  user_is_active :: "bool option"
  user_created_at :: time
  user_updated_at :: time

record CreateUserSchema =
  new_email :: string
  new_username :: string
  new_full_name :: string
  new_password :: "string option"

record product =
  product_id :: "string option"
  owner_id :: string
  name :: string
  description :: "string option"
  price :: rat
  stock :: "int option"
  product_is_active :: bool
  product_created_at :: time
  product_updated_at :: time

text \<open>\<^verbatim>\<open>ProductUpdateSchema\<close>: every field optional with default \<^verbatim>\<open>None\<close>.\<close>

record ProductUpdateSchema =
  upd_name :: "string option"
  upd_description :: "string option"
  upd_price :: "rat option"
  upd_stock :: "int option"

section \<open>Configuration and third-party libraries\<close>

record settings =
  SECRET_KEY :: string
  ACCESS_TOKEN_EXPIRE_MINUTES :: int

definition ALGORITHM :: string where
  "ALGORITHM = ''HS256''"

text \<open>
  The libraries the program calls are parameters of the model; \<open>'t\<close> is the type of
  serialized tokens.
  \<^item> \<open>object_id s\<close>: bson's \<^verbatim>\<open>ObjectId(s)\<close>, as its canonical string
    \<^verbatim>\<open>str(ObjectId(s))\<close>, or \<open>None\<close> where it raises \<^verbatim>\<open>InvalidId\<close>;
  \<^item> \<open>jwt_encode payload key algorithm\<close> and \<open>jwt_decode token key algorithms clock\<close>:
    PyJWT's \<^verbatim>\<open>jwt.encode\<close> and \<^verbatim>\<open>jwt.decode\<close>, the latter at a reading of the clock;
  \<^item> \<open>pwd_verify secret hash\<close> and \<open>pwd_hash salt secret\<close>: passlib's
    \<^verbatim>\<open>pwd_context.verify\<close> and \<^verbatim>\<open>pwd_context.hash\<close>, the salt it draws made an argument;
  \<^item> \<open>AuthSchema d\<close> and \<open>ProductSchema d\<close>: pydantic's construction and validation
    of the model from the keyword arguments \<open>d\<close>;
  \<^item> \<open>exn_str e\<close>: Python's \<^verbatim>\<open>str(e)\<close>; \<open>float_of r\<close>: \<^verbatim>\<open>float(Decimal)\<close>.
\<close>

record 't libs =
  object_id :: "string \<Rightarrow> string option"
  jwt_encode :: "doc \<Rightarrow> string \<Rightarrow> string \<Rightarrow> exn + 't"
  jwt_decode :: "'t \<Rightarrow> string \<Rightarrow> string list \<Rightarrow> time \<Rightarrow> exn + doc"
  pwd_verify :: "string \<Rightarrow> string option \<Rightarrow> exn + bool"
  pwd_hash :: "string \<Rightarrow> string option \<Rightarrow> exn + string"
  AuthSchema :: "doc \<Rightarrow> exn + user"
  ProductSchema :: "doc \<Rightarrow> exn + product"
  exn_str :: "exn \<Rightarrow> string"
  float_of :: "rat \<Rightarrow> rat"

definition ObjectId :: "'t libs \<Rightarrow> string \<Rightarrow> exn + string" where
  "ObjectId L s = (case object_id L s of None \<Rightarrow> Inl InvalidId | Some h \<Rightarrow> Inr h)"

text \<open>\<^verbatim>\<open>ObjectId.is_valid\<close>: false on an empty value, else whether \<^verbatim>\<open>ObjectId(oid)\<close> succeeds.\<close>

definition is_valid :: "'t libs \<Rightarrow> string \<Rightarrow> bool" where
  "is_valid L s = (s \<noteq> [] \<and> (case ObjectId L s of Inl _ \<Rightarrow> False | Inr _ \<Rightarrow> True))"

section \<open>The record store (MongoDB through motor)\<close>

text \<open>
  A stored document is its \<^verbatim>\<open>_id\<close> (an ObjectId, as its hexadecimal string) and its
  other fields. A collection is the list of its documents in natural order. \<open>faults\<close>
  is the schedule of connectivity failures: each round trip to the server consumes its
  head, and fails with a \<^verbatim>\<open>PyMongoError\<close> when the head is \<open>True\<close>.
  Documents are flat: field names that address embedded documents (with a dot) or name
  operators (with a dollar sign) are outside the model. So are values that the driver
  cannot encode as BSON, such as an integer outside 64 bits, which it refuses with an
  \<^verbatim>\<open>OverflowError\<close> before anything is sent: every value is taken to be encodable.
\<close>

type_synonym stored = "string \<times> doc"

record db =
  users :: "stored list"
  products :: "stored list"
  faults :: "bool list"

datatype collection = Users | Products

fun coll_get :: "collection \<Rightarrow> db \<Rightarrow> stored list" where
  "coll_get Users s = users s"
| "coll_get Products s = products s"

fun coll_put :: "collection \<Rightarrow> stored list \<Rightarrow> db \<Rightarrow> db" where
  "coll_put Users xs s = s\<lparr>users := xs\<rparr>"
| "coll_put Products xs s = s\<lparr>products := xs\<rparr>"

definition round_trip :: "db \<Rightarrow> bool \<times> db" where
  "round_trip s = (case faults s of [] \<Rightarrow> (True, s) | f # fs \<Rightarrow> (\<not> f, s\<lparr>faults := fs\<rparr>))"

text \<open>The document as the driver returns it: a dict with its \<^verbatim>\<open>_id\<close>.\<close>

definition as_dict :: "stored \<Rightarrow> doc" where
  "as_dict r = (snd r)(''_id'' \<mapsto> VOid (fst r))"

text \<open>After \<^verbatim>\<open>d["_id"] = str(d["_id"])\<close>.\<close>

definition with_str_id :: "stored \<Rightarrow> doc" where
  "with_str_id r = (snd r)(''_id'' \<mapsto> VStr (fst r))"

text \<open>Query filters: \<^verbatim>\<open>{k: v}\<close> and \<^verbatim>\<open>{"$or": [...]}\<close>.\<close>

datatype query = Eq string val | Or "query list"

fun matches :: "query \<Rightarrow> doc \<Rightarrow> bool" where
  "matches (Eq k v) d = (d k = Some v)"
| "matches (Or qs) d = (\<exists>q \<in> set qs. matches q d)"

definition find_one :: "collection \<Rightarrow> query \<Rightarrow> db \<Rightarrow> (exn + stored option) \<times> db" where
  "find_one c q s =
     (case round_trip s of
        (False, s') \<Rightarrow> (Inl PyMongoError, s')
      | (True, s') \<Rightarrow> (Inr (find (\<lambda>r. matches q (as_dict r)) (coll_get c s')), s'))"

fun update_first :: "('a \<Rightarrow> bool) \<Rightarrow> ('a \<Rightarrow> 'a) \<Rightarrow> 'a list \<Rightarrow> 'a list" where
  "update_first P f [] = []"
| "update_first P f (x # xs) = (if P x then f x # xs else x # update_first P f xs)"

fun delete_first :: "('a \<Rightarrow> bool) \<Rightarrow> 'a list \<Rightarrow> 'a list" where
  "delete_first P [] = []"
| "delete_first P (x # xs) = (if P x then xs else x # delete_first P xs)"

text \<open>\<^verbatim>\<open>$set\<close>: the fields of the update replace or extend those of the document.\<close>

definition set_fields :: "doc \<Rightarrow> stored \<Rightarrow> stored" where
  "set_fields upd r = (fst r, snd r ++ (upd |` (- {''_id''})))"

text \<open>The server refuses a \<^verbatim>\<open>$set\<close> that would change the immutable \<^verbatim>\<open>_id\<close>.\<close>

definition keeps_id :: "doc \<Rightarrow> stored \<Rightarrow> bool" where
  "keeps_id upd r = (case upd ''_id'' of None \<Rightarrow> True | Some v \<Rightarrow> v = VOid (fst r))"

text \<open>
  The field names of a dict that name top-level fields of a document: the ones the
  flat model of \<^verbatim>\<open>$set\<close> covers.
\<close>

definition top_level_fields :: "doc \<Rightarrow> bool" where
  "top_level_fields d = (\<forall>k \<in> dom d. k \<noteq> [] \<and> CHR ''.'' \<notin> set k \<and> hd k \<noteq> CHR ''$'')"

text \<open>\<^verbatim>\<open>find_one_and_update(q, {"$set": upd}, return_document=AFTER)\<close>.\<close>

definition find_one_and_update ::
  "collection \<Rightarrow> query \<Rightarrow> doc \<Rightarrow> db \<Rightarrow> (exn + stored option) \<times> db" where
  "find_one_and_update c q upd s =
     (case round_trip s of
        (False, s') \<Rightarrow> (Inl PyMongoError, s')
      | (True, s') \<Rightarrow>
          (case find (\<lambda>r. matches q (as_dict r)) (coll_get c s') of
             None \<Rightarrow> (Inr None, s')
           | Some r \<Rightarrow>
               if \<not> keeps_id upd r then (Inl PyMongoError, s')
               else (Inr (Some (set_fields upd r)),
                     coll_put c (update_first (\<lambda>r. matches q (as_dict r)) (set_fields upd)
                       (coll_get c s')) s')))"

text \<open>\<^verbatim>\<open>delete_one(q)\<close>, returning \<^verbatim>\<open>deleted_count\<close>.\<close>

definition delete_one :: "collection \<Rightarrow> query \<Rightarrow> db \<Rightarrow> (exn + nat) \<times> db" where
  "delete_one c q s =
     (case round_trip s of
        (False, s') \<Rightarrow> (Inl PyMongoError, s')
      | (True, s') \<Rightarrow>
          (case find (\<lambda>r. matches q (as_dict r)) (coll_get c s') of
             None \<Rightarrow> (Inr 0, s')
           | Some r \<Rightarrow>
               (Inr 1, coll_put c (delete_first (\<lambda>r. matches q (as_dict r)) (coll_get c s')) s')))"

text \<open>\<^verbatim>\<open>insert_one(d)\<close>: the driver gives the document a new ObjectId, \<open>new_id\<close>.\<close>

definition insert_one :: "collection \<Rightarrow> string \<Rightarrow> doc \<Rightarrow> db \<Rightarrow> (exn + stored) \<times> db" where
  "insert_one c new_id d s =
     (case round_trip s of
        (False, s') \<Rightarrow> (Inl PyMongoError, s')
      | (True, s') \<Rightarrow> (Inr (new_id, d), coll_put c (coll_get c s' @ [(new_id, d)]) s'))"

section \<open>Password hashing and tokens (src/users/utils/password.py)\<close>

definition verify_password :: "'t libs \<Rightarrow> string \<Rightarrow> string option \<Rightarrow> exn + bool" where
  "verify_password L plain_password hashed_password = pwd_verify L plain_password hashed_password"

definition get_password_hash :: "'t libs \<Rightarrow> string \<Rightarrow> string option \<Rightarrow> exn + string" where
  "get_password_hash L salt pw = pwd_hash L salt pw"

text \<open>
  A \<^verbatim>\<open>datetime\<close> lies in the years 1 to 9999 and a \<^verbatim>\<open>timedelta\<close> within 999999999 days
  of zero. Outside these ranges \<^verbatim>\<open>timedelta(minutes=m)\<close> and \<^verbatim>\<open>datetime + timedelta\<close> raise
  \<^verbatim>\<open>OverflowError\<close>.
\<close>

definition datetime_min :: time where
  "datetime_min = - (62135596800 * 1000000)"

definition datetime_max :: time where
  "datetime_max = 253402300800 * 1000000 - 1"

definition timedelta_min :: time where
  "timedelta_min = - (999999999 * 86400 * 1000000)"

definition timedelta_max :: time where
  "timedelta_max = 1000000000 * 86400 * 1000000 - 1"

definition timedelta_minutes :: "int \<Rightarrow> exn + time" where
  "timedelta_minutes m =
     (if timedelta_min \<le> m * 60 * 1000000 \<and> m * 60 * 1000000 \<le> timedelta_max
      then Inr (m * 60 * 1000000) else Inl OverflowError)"

definition datetime_add :: "time \<Rightarrow> time \<Rightarrow> exn + time" where
  "datetime_add t d =
     (if datetime_min \<le> t + d \<and> t + d \<le> datetime_max then Inr (t + d) else Inl OverflowError)"

text \<open>
  \<open>expires_delta\<close> is an \<^verbatim>\<open>Optional[timedelta]\<close>; the source tests its truth value, and
  \<^verbatim>\<open>timedelta(0)\<close> is false. \<open>now\<close> is what \<^verbatim>\<open>datetime.now(timezone.utc)\<close> gives.
\<close>

definition create_access_token ::
  "'t libs \<Rightarrow> settings \<Rightarrow> doc \<Rightarrow> time option \<Rightarrow> time \<Rightarrow> exn + 't" where
  "create_access_token L S data expires_delta now =
     (case (case expires_delta of
              None \<Rightarrow> timedelta_minutes (ACCESS_TOKEN_EXPIRE_MINUTES S)
            | Some d \<Rightarrow> if d \<noteq> 0 then Inr d
                       else timedelta_minutes (ACCESS_TOKEN_EXPIRE_MINUTES S)) of
        Inl e \<Rightarrow> Inl e
      | Inr delta \<Rightarrow>
          (case datetime_add now delta of
             Inl e \<Rightarrow> Inl e
           | Inr expire \<Rightarrow>
               jwt_encode L (data(''exp'' \<mapsto> VDatetime expire)) (SECRET_KEY S) ALGORITHM))"

definition credentials_exception :: exn where
  "credentials_exception =
     HTTPException 401 ''Could not validate credentials'' [(''WWW-Authenticate'', ''Bearer'')]"

definition decode_token :: "'t libs \<Rightarrow> settings \<Rightarrow> 't \<Rightarrow> time \<Rightarrow> exn + val" where
  "decode_token L S token now =
     (case jwt_decode L token (SECRET_KEY S) [ALGORITHM] now of
        Inr payload \<Rightarrow>
          (case payload ''sub'' of
             None \<Rightarrow> Inl credentials_exception
           | Some VNone \<Rightarrow> Inl credentials_exception
           | Some sub \<Rightarrow> Inr sub)
      | Inl e \<Rightarrow>
          if e = ExpiredSignatureError then Inl (HTTPException 401 ''Token has expired'' [])
          else if is_InvalidTokenError e then Inl credentials_exception
          else Inl e)"

section \<open>The user service (src/users/services.py)\<close>

definition check_if_user_exists ::
  "string \<Rightarrow> string \<Rightarrow> bool \<Rightarrow> db \<Rightarrow> (exn + bool) \<times> db" where
  "check_if_user_exists uname mail is_raise s =
     (case find_one Users (Or [Eq ''username'' (VStr uname), Eq ''email'' (VStr mail)]) s of
        (Inl e, s') \<Rightarrow> (Inl e, s')
      | (Inr None, s') \<Rightarrow> (Inr False, s')
      | (Inr (Some existing_user), s') \<Rightarrow>
          if as_dict existing_user ''username'' = Some (VStr uname)
          then (Inl (if is_raise then HTTPException 400 ''Username already exists.'' []
                     else TypeError), s')
          else if as_dict existing_user ''email'' = Some (VStr mail)
          then (Inl (if is_raise then HTTPException 400 ''Email already exists.'' []
                     else TypeError), s')
          else (Inr False, s'))"

definition get_user_by_username ::
  "'t libs \<Rightarrow> string \<Rightarrow> db \<Rightarrow> (exn + user option) \<times> db" where
  "get_user_by_username L uname s =
     (let handler = (\<lambda>e. if is_PyMongoError e
                          then Inl (HTTPException 500 (''Error fetching user by email: '' @ exn_str L e) [])
                          else Inl e)
      in case find_one Users (Eq ''username'' (VStr uname)) s of
           (Inl e, s') \<Rightarrow> (handler e, s')
         | (Inr None, s') \<Rightarrow> (Inr None, s')
         | (Inr (Some r), s') \<Rightarrow>
             (case AuthSchema L (with_str_id r) of
                Inl e \<Rightarrow> (handler e, s')
              | Inr u \<Rightarrow> (Inr (Some u), s')))"

definition get_user_by_id :: "'t libs \<Rightarrow> string \<Rightarrow> db \<Rightarrow> (exn + user option) \<times> db" where
  "get_user_by_id L uid s =
     (let handler = (\<lambda>e. if is_PyMongoError e \<or> is_ValueError e
                          then Inl (HTTPException 500 (''Error fetching user by ID: '' @ exn_str L e) [])
                          else Inl e)
      in case ObjectId L uid of
           Inl e \<Rightarrow> (handler e, s)
         | Inr oid \<Rightarrow>
             (case find_one Users (Eq ''_id'' (VOid oid)) s of
                (Inl e, s') \<Rightarrow> (handler e, s')
              | (Inr None, s') \<Rightarrow> (Inr None, s')
              | (Inr (Some r), s') \<Rightarrow>
                  (case AuthSchema L (with_str_id r) of
                     Inl e \<Rightarrow> (handler e, s')
                   | Inr u \<Rightarrow> (Inr (Some u), s'))))"

definition authenticate_user ::
  "'t libs \<Rightarrow> string \<Rightarrow> string \<Rightarrow> db \<Rightarrow> (exn + user option) \<times> db" where
  "authenticate_user L uname pw s =
     (case get_user_by_username L uname s of
        (Inl e, s') \<Rightarrow> (Inl e, s')
      | (Inr None, s') \<Rightarrow> (Inr None, s')
      | (Inr (Some u), s') \<Rightarrow>
          (case verify_password L pw (password u) of
             Inl e \<Rightarrow> (Inl e, s')
           | Inr ok \<Rightarrow> if \<not> ok then (Inr None, s') else (Inr (Some u), s')))"

section \<open>Identity resolution (src/users/dependencies/permissions.py)\<close>

text \<open>
  The body of the \<^verbatim>\<open>try\<close> block, then the \<^verbatim>\<open>except Exception\<close> around it. A \<^verbatim>\<open>sub\<close>
  that is not a string is never a valid ObjectId for \<^verbatim>\<open>ObjectId.is_valid\<close>.
\<close>

definition get_current_user_body ::
  "'t libs \<Rightarrow> settings \<Rightarrow> 't \<Rightarrow> time \<Rightarrow> db \<Rightarrow> (exn + user) \<times> db" where
  "get_current_user_body L S token now s =
     (case decode_token L S token now of
        Inl e \<Rightarrow> (Inl e, s)
      | Inr (VStr uid) \<Rightarrow>
          if uid = [] \<or> \<not> is_valid L uid then (Inl credentials_exception, s)
          else (case get_user_by_id L uid s of
                  (Inl e, s') \<Rightarrow> (Inl e, s')
                | (Inr None, s') \<Rightarrow> (Inl credentials_exception, s')
                | (Inr (Some user_data), s') \<Rightarrow> (Inr user_data, s'))
      | Inr _ \<Rightarrow> (Inl credentials_exception, s))"

definition get_current_user ::
  "'t libs \<Rightarrow> settings \<Rightarrow> 't \<Rightarrow> time \<Rightarrow> db \<Rightarrow> (exn + user) \<times> db" where
  "get_current_user L S token now s =
     (case get_current_user_body L S token now s of
        (Inl e, s') \<Rightarrow> (Inl credentials_exception, s')
      | (Inr user_data, s') \<Rightarrow> (Inr user_data, s'))"

section \<open>User registration (src/users/services.py, src/users/routes.py)\<close>

datatype content = Detail string | Errors exn | Message string

datatype response = UserModel user | ProductModel product | JSONResponse nat content

text \<open>
  \<^verbatim>\<open>model_dump\<close> leaves the password out (the field is declared with \<^verbatim>\<open>exclude=True\<close>);
  the whole body stands in a \<^verbatim>\<open>try\<close> whose \<^verbatim>\<open>except Exception\<close> raises a 500.
\<close>

definition create_user ::
  "'t libs \<Rightarrow> CreateUserSchema \<Rightarrow> time \<Rightarrow> string \<Rightarrow> string \<Rightarrow> db \<Rightarrow> (exn + user) \<times> db" where
  "create_user L user_data now salt new_id s =
     (let handler = (\<lambda>e. Inl (HTTPException 500
                         (''Database error while creating user: '' @ exn_str L e) []));
          user_dict = [''email'' \<mapsto> VStr (new_email user_data),
                       ''username'' \<mapsto> VStr (new_username user_data),
                       ''full_name'' \<mapsto> VStr (new_full_name user_data),
                       ''created_at'' \<mapsto> VDatetime now,
                       ''updated_at'' \<mapsto> VDatetime now]
      in case get_password_hash L salt (new_password user_data) of
           Inl e \<Rightarrow> (handler e, s)
         | Inr h \<Rightarrow>
             (case insert_one Users new_id (user_dict(''password'' \<mapsto> VStr h)) s of
                (Inl e, s') \<Rightarrow> (handler e, s')
              | (Inr r, s') \<Rightarrow>
                  (case AuthSchema L (with_str_id r) of
                     Inl e \<Rightarrow> (handler e, s')
                   | Inr u \<Rightarrow> (Inr u, s'))))"

text \<open>What the two \<^verbatim>\<open>except\<close> clauses of the route handlers return.\<close>

definition error_response :: "'t libs \<Rightarrow> exn \<Rightarrow> response" where
  "error_response L e =
     (if e = ValidationError then JSONResponse 422 (Errors e)
      else JSONResponse 500 (Detail (''Internal server error: '' @ exn_str L e)))"

definition create_user_route ::
  "'t libs \<Rightarrow> CreateUserSchema \<Rightarrow> time \<Rightarrow> string \<Rightarrow> string \<Rightarrow> db \<Rightarrow> (exn + response) \<times> db" where
  "create_user_route L data now salt new_id s =
     (case check_if_user_exists (new_username data) (new_email data) True s of
        (Inl e, s1) \<Rightarrow> (Inl e, s1)
      | (Inr _, s1) \<Rightarrow>
          (case create_user L data now salt new_id s1 of
             (Inr u, s2) \<Rightarrow> (Inr (UserModel u), s2)
           | (Inl e, s2) \<Rightarrow> (Inr (error_response L e), s2)))"

section \<open>The product service (src/product/services.py)\<close>

definition get_product_by_id ::
  "'t libs \<Rightarrow> string \<Rightarrow> db \<Rightarrow> (exn + product option) \<times> db" where
  "get_product_by_id L pid s =
     (let handler = (\<lambda>e. if is_PyMongoError e \<or> is_ValueError e
                          then Inl (Exception (''Error fetching product by ID: '' @ exn_str L e))
                          else Inl e)
      in case ObjectId L pid of
           Inl e \<Rightarrow> (handler e, s)
         | Inr oid \<Rightarrow>
             (case find_one Products (Eq ''_id'' (VOid oid)) s of
                (Inl e, s') \<Rightarrow> (handler e, s')
              | (Inr None, s') \<Rightarrow> (Inr None, s')
              | (Inr (Some r), s') \<Rightarrow>
                  (case ProductSchema L (with_str_id r) of
                     Inl e \<Rightarrow> (handler e, s')
                   | Inr p \<Rightarrow> (Inr (Some p), s'))))"

text \<open>
  \<^verbatim>\<open>model_dump(exclude_unset=True, exclude_defaults=True)\<close> of a \<^verbatim>\<open>ProductUpdateSchema\<close>:
  the fields that were given a value other than the default \<^verbatim>\<open>None\<close>.
\<close>

definition model_dump_update :: "ProductUpdateSchema \<Rightarrow> doc" where
  "model_dump_update u =
     (\<lambda>k. if k = ''name'' then map_option VStr (upd_name u)
          else if k = ''description'' then map_option VStr (upd_description u)
          else if k = ''price'' then map_option VDecimal (upd_price u)
          else if k = ''stock'' then map_option VInt (upd_stock u)
          else None)"

text \<open>A \<^verbatim>\<open>Decimal\<close> under \<^verbatim>\<open>price\<close> becomes a \<^verbatim>\<open>float\<close>.\<close>

definition price_to_float :: "'t libs \<Rightarrow> doc \<Rightarrow> doc" where
  "price_to_float L d =
     (case d ''price'' of Some (VDecimal r) \<Rightarrow> d(''price'' \<mapsto> VFloat (float_of L r)) | _ \<Rightarrow> d)"

definition update_handler :: "'t libs \<Rightarrow> exn \<Rightarrow> exn" where
  "update_handler L e =
     (if e = InvalidId \<or> is_PyMongoError e \<or> is_ValueError e
      then Exception (''Error updating product: '' @ exn_str L e) else e)"

text \<open>The part that \<^verbatim>\<open>update_product\<close> and \<^verbatim>\<open>partial_update_product\<close> share, from the
  refreshed \<^verbatim>\<open>updated_at\<close> on, inside their \<^verbatim>\<open>try\<close>.\<close>

definition set_and_fetch ::
  "'t libs \<Rightarrow> string \<Rightarrow> doc \<Rightarrow> time \<Rightarrow> db \<Rightarrow> (exn + product option) \<times> db" where
  "set_and_fetch L pid update_dict now s =
     (case ObjectId L pid of
        Inl e \<Rightarrow> (Inl (update_handler L e), s)
      | Inr oid \<Rightarrow>
          (case find_one_and_update Products (Eq ''_id'' (VOid oid))
                  (update_dict(''updated_at'' \<mapsto> VDatetime now)) s of
             (Inl e, s') \<Rightarrow> (Inl (update_handler L e), s')
           | (Inr None, s') \<Rightarrow> (Inr None, s')
           | (Inr (Some r), s') \<Rightarrow>
               (case ProductSchema L (with_str_id r) of
                  Inl e \<Rightarrow> (Inl (update_handler L e), s')
                | Inr p \<Rightarrow> (Inr (Some p), s'))))"

definition update_product ::
  "'t libs \<Rightarrow> string \<Rightarrow> ProductUpdateSchema \<Rightarrow> time \<Rightarrow> db \<Rightarrow> (exn + product option) \<times> db" where
  "update_product L pid update_data now s =
     (if \<not> is_valid L pid
      then (Inl (update_handler L (ValueError ''Invalid product ID format'')), s)
      else set_and_fetch L pid (price_to_float L (model_dump_update update_data)) now s)"

definition partial_update_product ::
  "'t libs \<Rightarrow> string \<Rightarrow> doc \<Rightarrow> time \<Rightarrow> db \<Rightarrow> (exn + product option) \<times> db" where
  "partial_update_product L pid update_data now s =
     (if \<not> is_valid L pid
      then (Inl (update_handler L (ValueError ''Invalid product ID format'')), s)
      else if update_data = Map.empty
      then (Inl (update_handler L (HTTPException 400 ''No fields to update'' [])), s)
      else set_and_fetch L pid (price_to_float L update_data) now s)"

definition delete_product :: "'t libs \<Rightarrow> string \<Rightarrow> db \<Rightarrow> (exn + bool) \<times> db" where
  "delete_product L pid s =
     (let handler = (\<lambda>e. if is_PyMongoError e \<or> is_ValueError e
                          then Inl (Exception (''Error deleting product: '' @ exn_str L e))
                          else Inl e)
      in case ObjectId L pid of
           Inl e \<Rightarrow> (handler e, s)
         | Inr oid \<Rightarrow>
             (case delete_one Products (Eq ''_id'' (VOid oid)) s of
                (Inl e, s') \<Rightarrow> (handler e, s')
              | (Inr deleted_count, s') \<Rightarrow> (Inr (deleted_count > 0), s')))"

section \<open>The product routes (src/product/api/crud.py)\<close>

text \<open>
  Each handler receives the identity that \<open>get_current_user\<close> resolved. It raises an
  exception (\<open>Inl\<close>) or returns a response (\<open>Inr\<close>), and leaves the store in a new state.
\<close>

definition update_product_route ::
  "'t libs \<Rightarrow> string \<Rightarrow> ProductUpdateSchema \<Rightarrow> user \<Rightarrow> time \<Rightarrow> db \<Rightarrow> (exn + response) \<times> db" where
  "update_product_route L pid update_data current_user now s =
     (if \<not> is_valid L pid then (Inl (HTTPException 400 ''Invalid product ID format'' []), s)
      else case get_product_by_id L pid s of
             (Inl e, s1) \<Rightarrow> (Inl e, s1)
           | (Inr None, s1) \<Rightarrow> (Inl (HTTPException 404 ''Product not found'' []), s1)
           | (Inr (Some p), s1) \<Rightarrow>
               if owner_id p \<noteq> user_id current_user
               then (Inl (HTTPException 403
                            ''You do not have permission to update this product'' []), s1)
               else (case update_product L pid update_data now s1 of
                       (Inr None, s2) \<Rightarrow>
                         (Inr (JSONResponse 404 (Detail ''Product not found'')), s2)
                     | (Inr (Some updated_product), s2) \<Rightarrow>
                         (Inr (ProductModel updated_product), s2)
                     | (Inl e, s2) \<Rightarrow> (Inr (error_response L e), s2)))"

definition partial_update_product_route ::
  "'t libs \<Rightarrow> string \<Rightarrow> doc \<Rightarrow> user \<Rightarrow> time \<Rightarrow> db \<Rightarrow> (exn + response) \<times> db" where
  "partial_update_product_route L pid update_data current_user now s =
     (if \<not> is_valid L pid then (Inl (HTTPException 400 ''Invalid product ID format'' []), s)
      else case get_product_by_id L pid s of
             (Inl e, s1) \<Rightarrow> (Inl e, s1)
           | (Inr None, s1) \<Rightarrow> (Inl (HTTPException 404 ''Product not found'' []), s1)
           | (Inr (Some p), s1) \<Rightarrow>
               if owner_id p \<noteq> user_id current_user
               then (Inl (HTTPException 403
                            ''You do not have permission to update this product'' []), s1)
               else (case partial_update_product L pid update_data now s1 of
                       (Inr None, s2) \<Rightarrow>
                         (Inr (JSONResponse 404 (Detail ''Product not found'')), s2)
                     | (Inr (Some updated_product), s2) \<Rightarrow>
                         (Inr (ProductModel updated_product), s2)
                     | (Inl e, s2) \<Rightarrow> (Inr (error_response L e), s2)))"

definition delete_product_route ::
  "'t libs \<Rightarrow> string \<Rightarrow> user \<Rightarrow> db \<Rightarrow> (exn + response) \<times> db" where
  "delete_product_route L pid current_user s =
     (if \<not> is_valid L pid then (Inl (HTTPException 400 ''Invalid product ID format'' []), s)
      else case get_product_by_id L pid s of
             (Inl e, s1) \<Rightarrow> (Inl e, s1)
           | (Inr None, s1) \<Rightarrow> (Inl (HTTPException 404 ''Product not found'' []), s1)
           | (Inr (Some p), s1) \<Rightarrow>
               if owner_id p \<noteq> user_id current_user
               then (Inl (HTTPException 403
                            ''You do not have permission to delete this product'' []), s1)
               else (case delete_product L pid s1 of
                       (Inl e, s2) \<Rightarrow> (Inl e, s2)
                     | (Inr success, s2) \<Rightarrow>
                         if \<not> success
                         then (Inl (HTTPException 500 ''Failed to delete product'' []), s2)
                         else (Inr (JSONResponse 200
                                      (Message ''Product deleted successfully'')), s2)))"

section \<open>Reference models of the libraries\<close>

text \<open>
  Models of the third-party libraries, which are not part of the repository. They
  instantiate the library parameters wherever a property is run on concrete data.
\<close>

subsection \<open>bson\<close>

text \<open>
  \<^verbatim>\<open>ObjectId(s)\<close> takes a string of 24 characters that \<^verbatim>\<open>bytes.fromhex\<close> accepts: pairs of
  hexadecimal digits, with ASCII whitespace skipped before a pair and at the end. Its
  canonical string is the bytes read, in lower-case hexadecimal.
\<close>

definition hex_digit :: "char \<Rightarrow> bool" where
  "hex_digit c = (c \<in> set ''0123456789abcdefABCDEF'')"

definition lower_hex :: "char \<Rightarrow> char" where
  "lower_hex c = (case map_of (zip ''ABCDEF'' ''abcdef'') c of None \<Rightarrow> c | Some d \<Rightarrow> d)"

definition isspace :: "char \<Rightarrow> bool" where
  "isspace c = (c \<in> set [CHR '' '', CHR 0x09, CHR 0x0A, CHR 0x0B, CHR 0x0C, CHR 0x0D])"

fun fromhex :: "string \<Rightarrow> string option" where
  "fromhex [] = Some []"
| "fromhex [c] = (if isspace c then Some [] else None)"
| "fromhex (c # d # cs) =
     (if isspace c then fromhex (d # cs)
      else if hex_digit c \<and> hex_digit d
      then map_option (\<lambda>r. lower_hex c # lower_hex d # r) (fromhex cs)
      else None)"

definition bson_object_id :: "string \<Rightarrow> string option" where
  "bson_object_id s = (if length s = 24 then fromhex s else None)"

subsection \<open>PyJWT (2.10 and later)\<close>

text \<open>
  The signature is treated symbolically: \<open>JWS alg payload key\<close> is the compact
  serialization whose header names \<open>alg\<close>, whose claims are \<open>payload\<close> and whose signature
  was computed with \<open>key\<close>; \<open>Opaque s\<close> is any string that is not a well-formed JWS.
  \<^verbatim>\<open>jwt.encode\<close> turns a \<^verbatim>\<open>datetime\<close> under \<^verbatim>\<open>exp\<close>, \<^verbatim>\<open>iat\<close> or \<^verbatim>\<open>nbf\<close> into whole seconds
  since the epoch (\<^verbatim>\<open>timegm(utctimetuple())\<close>, which drops the microseconds).
  \<^verbatim>\<open>jwt.decode\<close> checks structure, algorithm and signature, then raises
  \<^verbatim>\<open>ExpiredSignatureError\<close> when \<^verbatim>\<open>exp <= now\<close>, and after that an \<^verbatim>\<open>InvalidTokenError\<close>
  when \<^verbatim>\<open>sub\<close> is present and not a string. Of the registered claims only \<^verbatim>\<open>exp\<close>, absent
  or an integer, and \<^verbatim>\<open>sub\<close> are modelled; every token this program issues has just these.
\<close>

datatype token = JWS string doc string | Opaque string

definition numeric_date :: "string \<Rightarrow> doc \<Rightarrow> doc" where
  "numeric_date k p = (case p k of Some (VDatetime t) \<Rightarrow> p(k \<mapsto> VInt (t div 1000000)) | _ \<Rightarrow> p)"

definition pyjwt_encode :: "doc \<Rightarrow> string \<Rightarrow> string \<Rightarrow> exn + token" where
  "pyjwt_encode payload key alg =
     Inr (JWS alg (numeric_date ''nbf'' (numeric_date ''iat'' (numeric_date ''exp'' payload))) key)"

definition validate_sub :: "doc \<Rightarrow> exn + doc" where
  "validate_sub payload =
     (case payload ''sub'' of
        None \<Rightarrow> Inr payload
      | Some (VStr _) \<Rightarrow> Inr payload
      | Some _ \<Rightarrow> Inl InvalidTokenError)"

definition pyjwt_decode :: "token \<Rightarrow> string \<Rightarrow> string list \<Rightarrow> time \<Rightarrow> exn + doc" where
  "pyjwt_decode tok key algorithms now =
     (case tok of
        Opaque _ \<Rightarrow> Inl InvalidTokenError
      | JWS alg payload k \<Rightarrow>
          if alg \<notin> set algorithms then Inl InvalidTokenError
          else if k \<noteq> key then Inl InvalidTokenError
          else (case payload ''exp'' of
                  None \<Rightarrow> validate_sub payload
                | Some (VInt e) \<Rightarrow>
                    if e * 1000000 \<le> now then Inl ExpiredSignatureError
                    else validate_sub payload
                | Some _ \<Rightarrow> Inl InvalidTokenError))"

subsection \<open>passlib with the bcrypt scheme\<close>

text \<open>
  \<^verbatim>\<open>CryptContext(schemes=["bcrypt"]).verify(secret, hash)\<close>: \<^verbatim>\<open>False\<close> for the hash
  \<^verbatim>\<open>None\<close>; \<^verbatim>\<open>UnknownHashError\<close> for a hash that does not start with a bcrypt identifier,
  so that no scheme of the context claims it; otherwise the result of the bcrypt
  scheme's own verification, \<open>scheme_verify\<close>, which raises a \<^verbatim>\<open>ValueError\<close> of its own
  on a hash it cannot parse and else digests the secret again under the configuration
  embedded in the hash and compares.
\<close>

definition bcrypt_idents :: "string list" where
  "bcrypt_idents = [''$2$'', ''$2a$'', ''$2x$'', ''$2y$'', ''$2b$'']"

definition bcrypt_identify :: "string \<Rightarrow> bool" where
  "bcrypt_identify h = list_ex (\<lambda>i. prefix i h) bcrypt_idents"

definition passlib_verify ::
  "(string \<Rightarrow> string \<Rightarrow> exn + bool) \<Rightarrow> string \<Rightarrow> string option \<Rightarrow> exn + bool" where
  "passlib_verify scheme_verify secret hash =
     (case hash of
        None \<Rightarrow> Inr False
      | Some h \<Rightarrow>
          if \<not> bcrypt_identify h then Inl UnknownHashError
          else scheme_verify secret h)"

definition passlib_hash ::
  "(string \<Rightarrow> string \<Rightarrow> string) \<Rightarrow> string \<Rightarrow> string option \<Rightarrow> exn + string" where
  "passlib_hash digest salt secret =
     (case secret of
        None \<Rightarrow> Inl TypeError
      | Some p \<Rightarrow> Inr (digest (''$2b$12$'' @ salt) p))"

subsection \<open>pydantic\<close>

text \<open>
  Construction of \<^verbatim>\<open>AuthSchema\<close> from the keyword arguments \<open>d\<close> whose values have the
  declared types, with the constraints of src/users/schemas/auth.py; anything else is a
  \<^verbatim>\<open>ValidationError\<close>. The check of the e-mail syntax is a parameter; \<open>default_time\<close> is
  what \<^verbatim>\<open>datetime.utcnow\<close> gives where a timestamp is absent.
\<close>

definition isalnum :: "string \<Rightarrow> bool" where
  "isalnum s = (s \<noteq> [] \<and> list_all (\<lambda>c. c \<in> set
     ''0123456789abcdefghijklmnopqrstuvwxyzABCDEFGHIJKLMNOPQRSTUVWXYZ'') s)"

definition get_time :: "time \<Rightarrow> val option \<Rightarrow> time option" where
  "get_time default_time v =
     (case v of None \<Rightarrow> Some default_time | Some (VDatetime t) \<Rightarrow> Some t | Some _ \<Rightarrow> None)"

definition pydantic_AuthSchema :: "(string \<Rightarrow> bool) \<Rightarrow> time \<Rightarrow> doc \<Rightarrow> exn + user" where
  "pydantic_AuthSchema valid_email default_time d =
     (case (d ''_id'', d ''email'', d ''username'', d ''full_name'') of
        (Some (VStr i), Some (VStr e), Some (VStr u), Some (VStr f)) \<Rightarrow>
          (case (d ''password'',
                 get_time default_time (d ''created_at''),
                 get_time default_time (d ''updated_at'')) of
             (Some pw, Some c, Some m) \<Rightarrow>
               if valid_email e \<and> 3 \<le> length u \<and> length u \<le> 50 \<and> isalnum u
                  \<and> (case pw of VNone \<Rightarrow> True
                      | VStr p \<Rightarrow> 3 \<le> length p \<and> length p \<le> 64 | _ \<Rightarrow> False)
                  \<and> (case d ''is_active'' of None \<Rightarrow> True | Some VNone \<Rightarrow> True
                      | Some (VBool _) \<Rightarrow> True | Some _ \<Rightarrow> False)
               then Inr \<lparr>user_id = i, email = e, username = u, full_name = f,
                         password = (case pw of VStr p \<Rightarrow> Some p | _ \<Rightarrow> None),
                         user_is_active = (case d ''is_active'' of None \<Rightarrow> Some True
                                           | Some (VBool b) \<Rightarrow> Some b | Some _ \<Rightarrow> None),
                         user_created_at = c, user_updated_at = m\<rparr>
               else Inl ValidationError
           | _ \<Rightarrow> Inl ValidationError)
      | _ \<Rightarrow> Inl ValidationError)"

text \<open>
  Construction of \<^verbatim>\<open>ProductSchema\<close>, with the constraints of src/product/schemas.py.
  A price is positive, with at most two decimal places and eight digits before them.
  The validator of \<^verbatim>\<open>stock\<close> compares its value with 0, which is a \<^verbatim>\<open>TypeError\<close> on
  \<^verbatim>\<open>None\<close> whatever the other fields are.
\<close>

definition decimal_ok :: "rat \<Rightarrow> bool" where
  "decimal_ok r = (0 < r \<and> r < 100000000 \<and> r * 100 = of_int \<lfloor>r * 100\<rfloor>)"

definition get_price :: "val option \<Rightarrow> rat option" where
  "get_price v =
     (case v of
        Some (VFloat r) \<Rightarrow> if decimal_ok r then Some r else None
      | Some (VDecimal r) \<Rightarrow> if decimal_ok r then Some r else None
      | Some (VInt n) \<Rightarrow> if decimal_ok (of_int n) then Some (of_int n) else None
      | _ \<Rightarrow> None)"

definition pydantic_ProductSchema :: "time \<Rightarrow> doc \<Rightarrow> exn + product" where
  "pydantic_ProductSchema default_time d =
     (if d ''stock'' = Some VNone then Inl TypeError
      else case (d ''owner_id'', d ''name'', get_price (d ''price''),
            get_time default_time (d ''created_at''),
            get_time default_time (d ''updated_at'')) of
        (Some (VStr ow), Some (VStr n), Some pr, Some c, Some m) \<Rightarrow>
          if 3 \<le> length n \<and> length n \<le> 50
             \<and> (case d ''_id'' of None \<Rightarrow> True | Some VNone \<Rightarrow> True
                 | Some (VStr _) \<Rightarrow> True | Some _ \<Rightarrow> False)
             \<and> (case d ''description'' of None \<Rightarrow> True | Some VNone \<Rightarrow> True
                 | Some (VStr t) \<Rightarrow> length t \<le> 500 | Some _ \<Rightarrow> False)
             \<and> (case d ''stock'' of None \<Rightarrow> True | Some (VInt k) \<Rightarrow> 0 \<le> k | Some _ \<Rightarrow> False)
             \<and> (case d ''is_active'' of None \<Rightarrow> True | Some (VBool _) \<Rightarrow> True
                 | Some _ \<Rightarrow> False)
          then Inr \<lparr>product_id = (case d ''_id'' of Some (VStr i) \<Rightarrow> Some i | _ \<Rightarrow> None),
                    owner_id = ow, name = n,
                    description = (case d ''description'' of Some (VStr t) \<Rightarrow> Some t | _ \<Rightarrow> None),
                    price = pr,
                    stock = (case d ''stock'' of Some (VInt k) \<Rightarrow> Some k | _ \<Rightarrow> Some 0),
                    product_is_active = (case d ''is_active'' of Some (VBool b) \<Rightarrow> b | _ \<Rightarrow> True),
                    product_created_at = c, product_updated_at = m\<rparr>
          else Inl ValidationError
      | _ \<Rightarrow> Inl ValidationError)"

subsection \<open>The libraries together\<close>

text \<open>
  \<open>plain_digest\<close> and \<open>plain_str\<close> are stand-ins for bcrypt's digest and for Python's
  \<^verbatim>\<open>str\<close> of an exception: they fix a value where a run needs one and have none of the
  properties of the real functions. A bcrypt hash has 60 characters, the first 29 of
  which are the identifier, the cost and the salt.
\<close>

definition plain_digest :: "string \<Rightarrow> string \<Rightarrow> string" where
  "plain_digest config secret = config @ take 31 (secret @ replicate 31 (CHR ''.''))"

definition plain_bcrypt_verify :: "string \<Rightarrow> string \<Rightarrow> exn + bool" where
  "plain_bcrypt_verify secret h =
     (if length h \<noteq> 60 then Inl (ValueError ''malformed bcrypt hash'')
      else Inr (plain_digest (take 29 h) secret = h))"

fun plain_str :: "exn \<Rightarrow> string" where
  "plain_str (HTTPException code detail headers) = detail"
| "plain_str (ValueError msg) = msg"
| "plain_str (Exception msg) = msg"
| "plain_str (OtherError msg) = msg"
| "plain_str PyMongoError = ''connection refused''"
| "plain_str _ = ''error''"

definition reference_libs :: "token libs" where
  "reference_libs =
     \<lparr>object_id = bson_object_id,
      jwt_encode = pyjwt_encode,
      jwt_decode = pyjwt_decode,
      pwd_verify = passlib_verify plain_bcrypt_verify,
      pwd_hash = passlib_hash plain_digest,
      AuthSchema = pydantic_AuthSchema (\<lambda>e. CHR ''@'' \<in> set e) 0,
      ProductSchema = pydantic_ProductSchema 0,
      exn_str = plain_str,
      float_of = (\<lambda>r. r)\<rparr>"

text \<open>The defaults of src/config.py.\<close>

definition default_settings :: settings where
  "default_settings = \<lparr>SECRET_KEY = ''your_super_secret_key'', ACCESS_TOKEN_EXPIRE_MINUTES = 60\<rparr>"

section \<open>Example data\<close>

definition alice_id :: string where
  "alice_id = ''507f1f77bcf86cd799439011''"

definition bob_id :: string where
  "bob_id = ''507f1f77bcf86cd799439012''"

definition widget_id :: string where
  "widget_id = ''65a0c0ffee0000000000beef''"

text \<open>
  A well-formed bcrypt hash string: identifier, cost, 22 characters of salt and 31 of
  digest. The digest is a placeholder that no password is known to produce.
\<close>

definition alice_hash :: string where
  "alice_hash = plain_digest ''$2b$12$abcdefghijklmnopqrstuv'' ''secret''"

definition alice_doc :: doc where
  "alice_doc =
     [''email'' \<mapsto> VStr ''a@x.com'', ''username'' \<mapsto> VStr ''alice'',
      ''full_name'' \<mapsto> VStr ''Alice'', ''password'' \<mapsto> VStr alice_hash,
      ''created_at'' \<mapsto> VDatetime 1000000, ''updated_at'' \<mapsto> VDatetime 1000000]"

definition bob_doc :: doc where
  "bob_doc =
     [''email'' \<mapsto> VStr ''b@x.com'', ''username'' \<mapsto> VStr ''bob'',
      ''full_name'' \<mapsto> VStr ''Bob'', ''password'' \<mapsto> VStr ''corrupted'',
      ''created_at'' \<mapsto> VDatetime 2000000, ''updated_at'' \<mapsto> VDatetime 2000000]"

definition widget_doc :: doc where
  "widget_doc =
     [''owner_id'' \<mapsto> VStr alice_id, ''name'' \<mapsto> VStr ''widget'', ''price'' \<mapsto> VFloat 5,
      ''stock'' \<mapsto> VInt 3, ''created_at'' \<mapsto> VDatetime 3000000,
      ''updated_at'' \<mapsto> VDatetime 3000000]"

definition alice :: user where
  "alice = \<lparr>user_id = alice_id, email = ''a@x.com'', username = ''alice'',
            full_name = ''Alice'', password = Some alice_hash, user_is_active = Some True,
            user_created_at = 1000000, user_updated_at = 1000000\<rparr>"

definition bob :: user where
  "bob = \<lparr>user_id = bob_id, email = ''b@x.com'', username = ''bob'',
          full_name = ''Bob'', password = Some ''corrupted'', user_is_active = Some True,
          user_created_at = 2000000, user_updated_at = 2000000\<rparr>"

definition widget :: product where
  "widget = \<lparr>product_id = Some widget_id, owner_id = alice_id, name = ''widget'',
             description = None, price = 5, stock = Some 3, product_is_active = True,
             product_created_at = 3000000, product_updated_at = 3000000\<rparr>"

definition rename :: ProductUpdateSchema where
  "rename = \<lparr>upd_name = Some ''gadget'', upd_description = None, upd_price = None,
             upd_stock = None\<rparr>"

definition candidate :: "string \<Rightarrow> string \<Rightarrow> CreateUserSchema" where
  "candidate un em = \<lparr>new_email = em, new_username = un, new_full_name = ''New User'',
                       new_password = Some ''pass1234''\<rparr>"

text \<open>A store that answers, and the same store behind a connection that fails once.\<close>

definition sample_db :: db where
  "sample_db = \<lparr>users = [(alice_id, alice_doc), (bob_id, bob_doc)],
                 products = [(widget_id, widget_doc)], faults = []\<rparr>"

definition unreachable_db :: db where
  "unreachable_db = sample_db\<lparr>faults := [True]\<rparr>"

text \<open>A token for \<open>sub\<close> that expires \<open>e\<close> seconds after the epoch, signed with the server's key.\<close>

definition token_for :: "val \<Rightarrow> int \<Rightarrow> token" where
  "token_for sub e = JWS ''HS256'' [''sub'' \<mapsto> sub, ''exp'' \<mapsto> VInt e] ''your_super_secret_key''"

text \<open>The definitions unfolded to run the model on concrete data.\<close>

named_theorems run

declare ALGORITHM_def [run] ObjectId_def [run] is_valid_def [run] round_trip_def [run]
  as_dict_def [run] with_str_id_def [run] find_one_def [run] set_fields_def [run]
  keeps_id_def [run] find_one_and_update_def [run] delete_one_def [run] insert_one_def [run]
  verify_password_def [run] get_password_hash_def [run] datetime_min_def [run]
  datetime_max_def [run] timedelta_min_def [run] timedelta_max_def [run]
  timedelta_minutes_def [run] datetime_add_def [run]
  create_access_token_def [run] credentials_exception_def [run] decode_token_def [run]
  check_if_user_exists_def [run] get_user_by_username_def [run] get_user_by_id_def [run]
  authenticate_user_def [run] get_current_user_body_def [run] get_current_user_def [run]
  create_user_def [run] error_response_def [run] create_user_route_def [run]
  get_product_by_id_def [run] model_dump_update_def [run] price_to_float_def [run]
  update_handler_def [run] set_and_fetch_def [run] update_product_def [run]
  partial_update_product_def [run] delete_product_def [run] update_product_route_def [run]
  partial_update_product_route_def [run] delete_product_route_def [run]
  hex_digit_def [run] lower_hex_def [run] isspace_def [run] bson_object_id_def [run] numeric_date_def [run]
  pyjwt_encode_def [run] validate_sub_def [run] pyjwt_decode_def [run] bcrypt_idents_def [run]
  bcrypt_identify_def [run] passlib_verify_def [run] passlib_hash_def [run] isalnum_def [run] get_time_def [run]
  pydantic_AuthSchema_def [run] decimal_ok_def [run] get_price_def [run]
  pydantic_ProductSchema_def [run] plain_digest_def [run] plain_bcrypt_verify_def [run] reference_libs_def [run]
  default_settings_def [run] alice_id_def [run] bob_id_def [run] widget_id_def [run]
  alice_hash_def [run] alice_doc_def [run] bob_doc_def [run] widget_doc_def [run]
  alice_def [run] bob_def [run] sample_db_def [run] unreachable_db_def [run]
  token_for_def [run] widget_def [run] rename_def [run] candidate_def [run]

section \<open>The store under reads and writes\<close>

lemma find_holds: "find P xs = Some x \<Longrightarrow> P x"
  by (induction xs) (auto split: if_splits)

lemma find_update_first:
  "(\<And>x. P x \<Longrightarrow> P (f x)) \<Longrightarrow> find P (update_first P f xs) = map_option f (find P xs)"
  by (induction xs) auto

lemma as_dict_id [simp]: "(as_dict r ''_id'' = Some (VOid oid)) = (fst r = oid)"
  by (auto simp: as_dict_def)

lemma as_dict_other [simp]: "k \<noteq> ''_id'' \<Longrightarrow> as_dict r k = snd r k"
  by (simp add: as_dict_def)

lemma round_trip_keeps [simp]:
  "users (snd (round_trip s)) = users s" "products (snd (round_trip s)) = products s"
  by (auto simp: round_trip_def split: list.splits)

lemma find_one_keeps [simp]:
  "users (snd (find_one c q s)) = users s" "products (snd (find_one c q s)) = products s"
  by (auto simp: find_one_def split: prod.splits bool.splits) (metis round_trip_keeps snd_conv)+

lemma find_one_id:
  "find_one c (Eq ''_id'' (VOid oid)) s = (Inr (Some r), s1) \<Longrightarrow>
     find (\<lambda>r. fst r = oid) (coll_get c s) = Some r \<and> fst r = oid"
  by (cases c)
     (auto simp: find_one_def round_trip_def split: prod.splits bool.splits list.splits
           dest: find_holds)

lemma delete_one_raises: "delete_one c q s = (Inl e, s') \<Longrightarrow> e = PyMongoError"
  by (auto simp: delete_one_def split: prod.splits bool.splits option.splits)

lemma restrict_no_id: "upd ''_id'' = None \<Longrightarrow> upd |` (- {''_id''}) = upd"
  by (rule ext) (simp add: restrict_map_def)

lemma set_fields_plain:
  "upd ''_id'' = None \<Longrightarrow> set_fields upd = (\<lambda>r. (fst r, snd r ++ upd))"
  by (rule ext) (simp add: set_fields_def restrict_no_id)

lemma find_one_and_update_store:
  assumes "round_trip s = (True, s')" "find (\<lambda>r. fst r = oid) (products s) = Some r"
    "upd ''_id'' = None"
  shows "find_one_and_update Products (Eq ''_id'' (VOid oid)) upd s =
           (Inr (Some (set_fields upd r)),
            s'\<lparr>products := update_first (\<lambda>r. fst r = oid) (set_fields upd) (products s)\<rparr>)"
proof -
  have k: "products s' = products s"
    using round_trip_keeps(2)[of s] assms(1) by simp
  show ?thesis
    using assms k by (simp add: find_one_and_update_def keeps_id_def)
qed

section \<open>The product service and its routes\<close>

lemma get_product_by_id_keeps:
  "users (snd (get_product_by_id L pid s)) = users s"
  "products (snd (get_product_by_id L pid s)) = products s"
  by (auto simp: get_product_by_id_def Let_def split: prod.splits sum.splits option.splits)
     (metis find_one_keeps snd_conv)+

lemma get_product_by_id_found:
  "get_product_by_id L pid s = (Inr (Some p), s1) \<Longrightarrow>
     \<exists>oid r. ObjectId L pid = Inr oid \<and> find (\<lambda>r. fst r = oid) (products s) = Some r
            \<and> fst r = oid \<and> ProductSchema L (with_str_id r) = Inr p"
  by (auto simp: get_product_by_id_def Let_def split: sum.splits prod.splits option.splits if_splits
           dest!: find_one_id)

lemma delete_product_raises:
  "is_valid L pid \<Longrightarrow> delete_product L pid s = (Inl e, s') \<Longrightarrow> \<exists>msg. e = Exception msg"
  by (auto simp: delete_product_def is_valid_def Let_def
           split: prod.splits sum.splits dest!: delete_one_raises)

lemma set_and_fetch_store:
  assumes "ObjectId L pid = Inr oid" "fst (round_trip s)"
    "find (\<lambda>r. fst r = oid) (products s) = Some r" "upd ''_id'' = None"
  shows "products (snd (set_and_fetch L pid upd now s)) =
           update_first (\<lambda>r. fst r = oid)
             (\<lambda>r. (fst r, snd r ++ upd(''updated_at'' \<mapsto> VDatetime now))) (products s)"
proof -
  obtain s' where rt: "round_trip s = (True, s')"
    using assms(2) by (cases "round_trip s") auto
  let ?U = "upd(''updated_at'' \<mapsto> VDatetime now)"
  have u: "?U ''_id'' = None"
    using assms(4) by simp
  have fu: "find_one_and_update Products (Eq ''_id'' (VOid oid)) ?U s =
           (Inr (Some (set_fields ?U r)),
            s'\<lparr>products := update_first (\<lambda>r. fst r = oid) (set_fields ?U) (products s)\<rparr>)"
    using rt assms(3) u by (rule find_one_and_update_store)
  have sp: "set_fields ?U = (\<lambda>r. (fst r, snd r ++ ?U))"
    using u by (rule set_fields_plain)
  have "products (snd (set_and_fetch L pid upd now s)) =
          update_first (\<lambda>r. fst r = oid) (set_fields ?U) (products s)"
    by (simp add: set_and_fetch_def assms(1) fu split: sum.splits)
  then show ?thesis
    unfolding sp .
qed

lemma price_to_float_other: "k \<noteq> ''price'' \<Longrightarrow> price_to_float L d k = d k"
  by (simp add: price_to_float_def split: option.splits val.splits)

lemma route_forbidden:
  assumes "is_valid L pid" "get_product_by_id L pid s = (Inr (Some p), s1)"
    "owner_id p \<noteq> user_id u"
  shows "update_product_route L pid d u now s =
           (Inl (HTTPException 403 ''You do not have permission to update this product'' []), s1)"
    "partial_update_product_route L pid dd u now s =
           (Inl (HTTPException 403 ''You do not have permission to update this product'' []), s1)"
    "delete_product_route L pid u s =
           (Inl (HTTPException 403 ''You do not have permission to delete this product'' []), s1)"
  using assms
  by (simp_all add: update_product_route_def partial_update_product_route_def
        delete_product_route_def)

lemma update_route_owner:
  assumes "is_valid L pid" "get_product_by_id L pid s = (Inr (Some p), s1)"
    "owner_id p = user_id u"
  shows "\<exists>r. fst (update_product_route L pid d u now s) = Inr r"
    "snd (update_product_route L pid d u now s) = snd (update_product L pid d now s1)"
    "\<exists>r. fst (partial_update_product_route L pid dd u now s) = Inr r"
    "snd (partial_update_product_route L pid dd u now s)
       = snd (partial_update_product L pid dd now s1)"
  using assms
  by (auto simp: update_product_route_def partial_update_product_route_def
        split: prod.splits sum.splits option.splits)

lemma delete_route_owner:
  assumes "is_valid L pid" "get_product_by_id L pid s = (Inr (Some p), s1)"
    "owner_id p = user_id u"
  shows "fst (delete_product_route L pid u s) \<noteq> Inl (HTTPException 403 m h)"
    "snd (delete_product_route L pid u s) = snd (delete_product L pid s1)"
  using assms
  by (auto simp: delete_product_route_def
        split: prod.splits sum.splits option.splits dest: delete_product_raises)

lemma route_mutation_needs_owner:
  assumes "products (snd (update_product_route L pid d u now s)) \<noteq> products s
         \<or> products (snd (partial_update_product_route L pid dd u now s)) \<noteq> products s
         \<or> products (snd (delete_product_route L pid u s)) \<noteq> products s"
  shows "\<exists>p s1. get_product_by_id L pid s = (Inr (Some p), s1) \<and> owner_id p = user_id u"
proof (cases "get_product_by_id L pid s")
  case (Pair r s1)
  have k: "products s1 = products s"
    using get_product_by_id_keeps(2)[of L pid s] Pair by simp
  show ?thesis
    using assms Pair k
    by (auto simp: update_product_route_def partial_update_product_route_def
          delete_product_route_def split: if_splits sum.splits option.splits)
qed

lemma sample_widget:
  "is_valid reference_libs widget_id"
  "get_product_by_id reference_libs widget_id sample_db = (Inr (Some widget), sample_db)"
  "ObjectId reference_libs widget_id = Inr widget_id"
  by (simp_all add: run)

text \<open>
  Claim C1. For each of the three mutating product routes (update, partial update,
  delete), any identity \<open>u\<close> and any product that the lookup finds: when the product's
  \<open>owner_id\<close> differs from the identity's id the route raises the 403 exception and the
  products are those before the request; when they are equal the route does not raise a
  403 and leaves the store as the service's mutation, run after the lookup, leaves it.
  Whenever a route changes the stored products at all, the lookup had found the product
  and its owner was the requester: the comparison comes before the mutation.
\<close>

theorem ownership_checked_before_mutation:
  "(is_valid L pid \<and> get_product_by_id L pid s = (Inr (Some p), s1) \<longrightarrow>
     products s1 = products s
   \<and> (owner_id p \<noteq> user_id u \<longrightarrow>
           update_product_route L pid d u now s =
             (Inl (HTTPException 403 ''You do not have permission to update this product'' []), s1)
         \<and> partial_update_product_route L pid dd u now s =
             (Inl (HTTPException 403 ''You do not have permission to update this product'' []), s1)
         \<and> delete_product_route L pid u s =
             (Inl (HTTPException 403 ''You do not have permission to delete this product'' []), s1))
   \<and> (owner_id p = user_id u \<longrightarrow>
           (\<forall>m h. fst (update_product_route L pid d u now s) \<noteq> Inl (HTTPException 403 m h))
         \<and> snd (update_product_route L pid d u now s) = snd (update_product L pid d now s1)
         \<and> (\<forall>m h. fst (partial_update_product_route L pid dd u now s)
                    \<noteq> Inl (HTTPException 403 m h))
         \<and> snd (partial_update_product_route L pid dd u now s)
             = snd (partial_update_product L pid dd now s1)
         \<and> (\<forall>m h. fst (delete_product_route L pid u s) \<noteq> Inl (HTTPException 403 m h))
         \<and> snd (delete_product_route L pid u s) = snd (delete_product L pid s1)))
   \<and> (products (snd (update_product_route L pid d u now s)) \<noteq> products s
        \<or> products (snd (partial_update_product_route L pid dd u now s)) \<noteq> products s
        \<or> products (snd (delete_product_route L pid u s)) \<noteq> products s
      \<longrightarrow> (\<exists>p s1. get_product_by_id L pid s = (Inr (Some p), s1) \<and> owner_id p = user_id u))"
proof (intro impI conjI; (elim conjE)?)
  assume "products (snd (update_product_route L pid d u now s)) \<noteq> products s
        \<or> products (snd (partial_update_product_route L pid dd u now s)) \<noteq> products s
        \<or> products (snd (delete_product_route L pid u s)) \<noteq> products s"
  then show "\<exists>p s1. get_product_by_id L pid s = (Inr (Some p), s1) \<and> owner_id p = user_id u"
    by (rule route_mutation_needs_owner)
next
  assume a: "is_valid L pid" "get_product_by_id L pid s = (Inr (Some p), s1)"
  show "products s1 = products s"
    using get_product_by_id_keeps(2)[of L pid s] a(2) by simp
  {
    assume n: "owner_id p \<noteq> user_id u"
    show "update_product_route L pid d u now s =
             (Inl (HTTPException 403 ''You do not have permission to update this product'' []), s1)"
       "partial_update_product_route L pid dd u now s =
             (Inl (HTTPException 403 ''You do not have permission to update this product'' []), s1)"
       "delete_product_route L pid u s =
             (Inl (HTTPException 403 ''You do not have permission to delete this product'' []), s1)"
      using route_forbidden[OF a n] by simp_all
  }
  {
    assume e: "owner_id p = user_id u"
    show "\<forall>m h. fst (update_product_route L pid d u now s) \<noteq> Inl (HTTPException 403 m h)"
      using update_route_owner(1)[OF a e, of d now] by auto
    show "snd (update_product_route L pid d u now s) = snd (update_product L pid d now s1)"
      by (rule update_route_owner(2)[OF a e])
    show "\<forall>m h. fst (partial_update_product_route L pid dd u now s)
                  \<noteq> Inl (HTTPException 403 m h)"
      using update_route_owner(3)[OF a e, of dd now] by auto
    show "snd (partial_update_product_route L pid dd u now s)
            = snd (partial_update_product L pid dd now s1)"
      by (rule update_route_owner(4)[OF a e])
    show "\<forall>m h. fst (delete_product_route L pid u s) \<noteq> Inl (HTTPException 403 m h)"
      using delete_route_owner(1)[OF a e] by auto
    show "snd (delete_product_route L pid u s) = snd (delete_product L pid s1)"
      by (rule delete_route_owner(2)[OF a e])
  }
qed

text \<open>
  On the example store bob, who does not own the widget, gets the 403 from all three
  routes and the store stays as it was; alice, the owner, deletes it.
\<close>

theorem ownership_checked_before_mutation_witness:
  "update_product_route reference_libs widget_id rename bob 9000000 sample_db =
     (Inl (HTTPException 403 ''You do not have permission to update this product'' []), sample_db)
   \<and> partial_update_product_route reference_libs widget_id [''name'' \<mapsto> VStr ''gadget''] bob
        9000000 sample_db =
     (Inl (HTTPException 403 ''You do not have permission to update this product'' []), sample_db)
   \<and> delete_product_route reference_libs widget_id bob sample_db =
     (Inl (HTTPException 403 ''You do not have permission to delete this product'' []), sample_db)
   \<and> snd (delete_product_route reference_libs widget_id alice sample_db) =
       snd (delete_product reference_libs widget_id sample_db)
   \<and> products (snd (delete_product reference_libs widget_id sample_db)) = []"
proof -
  have n: "owner_id widget \<noteq> user_id bob" and e: "owner_id widget = user_id alice"
    by (simp_all add: run)
  have d: "products (snd (delete_product reference_libs widget_id sample_db)) = []"
    by (simp add: run)
  note b = ownership_checked_before_mutation[of reference_libs widget_id sample_db widget
            sample_db bob rename 9000000 "[''name'' \<mapsto> VStr ''gadget'']", THEN conjunct1]
  note a = ownership_checked_before_mutation[of reference_libs widget_id sample_db widget
            sample_db alice rename 9000000 "[''name'' \<mapsto> VStr ''gadget'']", THEN conjunct1]
  show ?thesis
    using a b sample_widget n e d by simp
qed

text \<open>
  Claim C10. The PATCH route, once the requester has passed the ownership check
  against the stored owner and the server answers, writes every pair of the caller's
  dict (a \<^verbatim>\<open>Decimal\<close> price as a float) and the refreshed \<^verbatim>\<open>updated_at\<close> over the fields of
  the stored product, whatever the field names are: no set of permitted fields is
  consulted. In particular a dict with an \<^verbatim>\<open>owner_id\<close> key replaces the stored owner.
\<close>

theorem partial_update_sets_any_field:
  "is_valid L pid \<and> get_product_by_id L pid s = (Inr (Some p), s1)
     \<and> owner_id p = user_id u \<and> fst (round_trip s1)
     \<and> update_data \<noteq> Map.empty \<and> update_data ''_id'' = None \<and> top_level_fields update_data
   \<longrightarrow> (\<exists>oid f. ObjectId L pid = Inr oid
          \<and> find (\<lambda>r. fst r = oid) (products s) = Some (oid, f)
          \<and> products (snd (partial_update_product_route L pid update_data u now s)) =
              update_first (\<lambda>r. fst r = oid)
                (\<lambda>r. (fst r, snd r ++ (price_to_float L update_data)(''updated_at'' \<mapsto> VDatetime now)))
                (products s)
          \<and> find (\<lambda>r. fst r = oid)
                (products (snd (partial_update_product_route L pid update_data u now s))) =
              Some (oid, f ++ (price_to_float L update_data)(''updated_at'' \<mapsto> VDatetime now))
          \<and> (\<forall>v. update_data ''owner_id'' = Some v \<longrightarrow>
                (f ++ (price_to_float L update_data)(''updated_at'' \<mapsto> VDatetime now)) ''owner_id''
                  = Some v))"
proof (intro impI, elim conjE)
  assume a: "is_valid L pid" "get_product_by_id L pid s = (Inr (Some p), s1)"
    "owner_id p = user_id u" "fst (round_trip s1)" "update_data \<noteq> Map.empty"
    "update_data ''_id'' = None"
  obtain oid r where o: "ObjectId L pid = Inr oid"
      "find (\<lambda>r. fst r = oid) (products s) = Some r" "fst r = oid"
    using get_product_by_id_found[OF a(2)] by blast
  obtain f where r: "r = (oid, f)" using o(3) by (cases r) auto
  have k: "products s1 = products s"
    using get_product_by_id_keeps(2)[of L pid s] a(2) by simp
  have pid: "(price_to_float L update_data) ''_id'' = None"
    using a(6) by (simp add: price_to_float_other)
  let ?U = "(price_to_float L update_data)(''updated_at'' \<mapsto> VDatetime now)"
  have "snd (partial_update_product_route L pid update_data u now s)
          = snd (partial_update_product L pid update_data now s1)"
    using update_route_owner(4)[OF a(1,2,3)] .
  also have "\<dots> = snd (set_and_fetch L pid (price_to_float L update_data) now s1)"
    using a(1,5) by (simp add: partial_update_product_def)
  finally have st: "products (snd (partial_update_product_route L pid update_data u now s))
      = update_first (\<lambda>r. fst r = oid) (\<lambda>r. (fst r, snd r ++ ?U)) (products s)"
    using set_and_fetch_store[of L pid oid s1 r "price_to_float L update_data" now]
      o(1) a(4) pid o(2) k by simp
  have fd: "find (\<lambda>r. fst r = oid)
       (products (snd (partial_update_product_route L pid update_data u now s)))
      = Some (oid, f ++ ?U)"
    unfolding st using o(2) r by (simp add: find_update_first)
  have ow: "\<forall>v. update_data ''owner_id'' = Some v \<longrightarrow> (f ++ ?U) ''owner_id'' = Some v"
    by (simp add: price_to_float_other map_add_def)
  show "\<exists>oid f. ObjectId L pid = Inr oid
          \<and> find (\<lambda>r. fst r = oid) (products s) = Some (oid, f)
          \<and> products (snd (partial_update_product_route L pid update_data u now s)) =
              update_first (\<lambda>r. fst r = oid)
                (\<lambda>r. (fst r, snd r ++ (price_to_float L update_data)(''updated_at'' \<mapsto> VDatetime now)))
                (products s)
          \<and> find (\<lambda>r. fst r = oid)
                (products (snd (partial_update_product_route L pid update_data u now s))) =
              Some (oid, f ++ (price_to_float L update_data)(''updated_at'' \<mapsto> VDatetime now))
          \<and> (\<forall>v. update_data ''owner_id'' = Some v \<longrightarrow>
                (f ++ (price_to_float L update_data)(''updated_at'' \<mapsto> VDatetime now)) ''owner_id''
                  = Some v)"
    using o(1) o(2) r st fd ow by blast
qed

text \<open>
  Alice owns the widget and sends \<^verbatim>\<open>{"owner_id": <bob's id>}\<close>: the stored owner, alice
  before the request, is bob after it.
\<close>

theorem partial_update_sets_any_field_witness:
  "widget_doc ''owner_id'' = Some (VStr alice_id)
   \<and> (\<exists>f. find (\<lambda>r. fst r = widget_id)
            (products (snd (partial_update_product_route reference_libs widget_id
                              [''owner_id'' \<mapsto> VStr bob_id] alice 9000000 sample_db)))
          = Some (widget_id, f)
        \<and> f ''owner_id'' = Some (VStr bob_id))"
proof -
  let ?d = "[''owner_id'' \<mapsto> VStr bob_id]"
  have h: "is_valid reference_libs widget_id
     \<and> get_product_by_id reference_libs widget_id sample_db = (Inr (Some widget), sample_db)
     \<and> owner_id widget = user_id alice \<and> fst (round_trip sample_db)
     \<and> ?d \<noteq> Map.empty \<and> ?d ''_id'' = None \<and> top_level_fields ?d"
    by (simp add: run top_level_fields_def)
  have w: "widget_doc ''owner_id'' = Some (VStr alice_id)"
    by (simp add: run)
  from partial_update_sets_any_field[of reference_libs widget_id sample_db widget sample_db
         alice ?d 9000000] h
  obtain oid f where o: "ObjectId reference_libs widget_id = Inr oid"
    and f: "find (\<lambda>r. fst r = oid)
              (products (snd (partial_update_product_route reference_libs widget_id ?d alice
                                9000000 sample_db)))
            = Some (oid, f ++ (price_to_float reference_libs ?d)(''updated_at'' \<mapsto> VDatetime 9000000))"
    and v: "\<forall>v. ?d ''owner_id'' = Some v \<longrightarrow>
              (f ++ (price_to_float reference_libs ?d)(''updated_at'' \<mapsto> VDatetime 9000000))
                ''owner_id'' = Some v"
    by blast
  define g where "g = f ++ (price_to_float reference_libs ?d)(''updated_at'' \<mapsto> VDatetime 9000000)"
  have "oid = widget_id"
    using o sample_widget(3) by simp
  then have "find (\<lambda>r. fst r = widget_id)
              (products (snd (partial_update_product_route reference_libs widget_id ?d alice
                                9000000 sample_db))) = Some (widget_id, g)"
    using f unfolding g_def by simp
  moreover have "g ''owner_id'' = Some (VStr bob_id)"
    using v unfolding g_def by simp
  ultimately show ?thesis
    using w by blast
qed


section \<open>Identity resolution\<close>

text \<open>
  Claim C2. Whatever the token, the libraries and the store, \<open>get_current_user\<close>
  returns a user record or raises the one 401 exception \<open>credentials_exception\<close>. That
  exception is the result for every failure of \<^verbatim>\<open>jwt.decode\<close> (expired, bad signature,
  malformed, or any other exception), for a subject that is not a valid ObjectId, for a
  subject that no stored user has, and for any exception of the lookup. Exceptions are
  the subclasses of \<^verbatim>\<open>Exception\<close>, which the \<^verbatim>\<open>except\<close> clause catches.
\<close>

theorem identity_resolution_unauthorized_only:
  "(fst (get_current_user L S token now s) = Inl credentials_exception
      \<or> (\<exists>u. fst (get_current_user L S token now s) = Inr u))
   \<and> (\<forall>e. jwt_decode L token (SECRET_KEY S) [ALGORITHM] now = Inl e
          \<longrightarrow> fst (get_current_user L S token now s) = Inl credentials_exception)
   \<and> (\<forall>v. decode_token L S token now = Inr v \<and> (\<forall>uid. v = VStr uid \<longrightarrow> \<not> is_valid L uid)
          \<longrightarrow> fst (get_current_user L S token now s) = Inl credentials_exception)
   \<and> (\<forall>uid. decode_token L S token now = Inr (VStr uid)
            \<and> fst (get_user_by_id L uid s) = Inr None
          \<longrightarrow> fst (get_current_user L S token now s) = Inl credentials_exception)
   \<and> (\<forall>uid e. decode_token L S token now = Inr (VStr uid)
            \<and> fst (get_user_by_id L uid s) = Inl e
          \<longrightarrow> fst (get_current_user L S token now s) = Inl credentials_exception)"
  by (auto simp: get_current_user_def get_current_user_body_def decode_token_def
           split: prod.splits sum.splits val.splits option.splits if_splits)

text \<open>
  A string that is no token, an expired token, a subject that is not an ObjectId, a
  subject that no user has, and a store that cannot be reached: the same exception.
\<close>

theorem identity_resolution_unauthorized_only_witness:
  "fst (get_current_user reference_libs default_settings (Opaque ''not.a.token'') 5 sample_db)
     = Inl credentials_exception
   \<and> fst (get_current_user reference_libs default_settings (token_for (VStr alice_id) 3600)
            3600000000 sample_db) = Inl credentials_exception
   \<and> fst (get_current_user reference_libs default_settings (token_for (VStr ''42'') 3600)
            5 sample_db) = Inl credentials_exception
   \<and> fst (get_current_user reference_libs default_settings (token_for (VStr widget_id) 3600)
            5 sample_db) = Inl credentials_exception
   \<and> fst (get_current_user reference_libs default_settings (token_for (VStr alice_id) 3600)
            5 unreachable_db) = Inl credentials_exception"
proof (intro conjI)
  have "jwt_decode reference_libs (Opaque ''not.a.token'') (SECRET_KEY default_settings)
             [ALGORITHM] 5 = Inl InvalidTokenError"
    by (simp add: run)
  then show "fst (get_current_user reference_libs default_settings (Opaque ''not.a.token'') 5
                sample_db) = Inl credentials_exception"
    using identity_resolution_unauthorized_only[of reference_libs default_settings "Opaque ''not.a.token''" 5 sample_db] by blast
  have "jwt_decode reference_libs (token_for (VStr alice_id) 3600)
             (SECRET_KEY default_settings) [ALGORITHM] 3600000000 = Inl ExpiredSignatureError"
    by (simp add: run)
  then show "fst (get_current_user reference_libs default_settings
                (token_for (VStr alice_id) 3600) 3600000000 sample_db) = Inl credentials_exception"
    using identity_resolution_unauthorized_only[of reference_libs default_settings "token_for (VStr alice_id) 3600" 3600000000
            sample_db] by blast
  have "decode_token reference_libs default_settings (token_for (VStr ''42'') 3600) 5
             = Inr (VStr ''42'')" "\<not> is_valid reference_libs ''42''"
    by (simp_all add: run)
  then show "fst (get_current_user reference_libs default_settings (token_for (VStr ''42'') 3600)
                5 sample_db) = Inl credentials_exception"
    using identity_resolution_unauthorized_only[of reference_libs default_settings "token_for (VStr ''42'') 3600" 5 sample_db]
    by auto
  have "decode_token reference_libs default_settings (token_for (VStr widget_id) 3600) 5
             = Inr (VStr widget_id)"
      "fst (get_user_by_id reference_libs widget_id sample_db) = Inr None"
    by (simp_all add: run)
  then show "fst (get_current_user reference_libs default_settings
                (token_for (VStr widget_id) 3600) 5 sample_db) = Inl credentials_exception"
    using identity_resolution_unauthorized_only[of reference_libs default_settings "token_for (VStr widget_id) 3600" 5 sample_db]
    by blast
  have "decode_token reference_libs default_settings (token_for (VStr alice_id) 3600) 5
             = Inr (VStr alice_id)"
      "fst (get_user_by_id reference_libs alice_id unreachable_db)
         = Inl (HTTPException 500 ''Error fetching user by ID: connection refused'' [])"
    by (simp_all add: run)
  then show "fst (get_current_user reference_libs default_settings
                (token_for (VStr alice_id) 3600) 5 unreachable_db) = Inl credentials_exception"
    using identity_resolution_unauthorized_only[of reference_libs default_settings "token_for (VStr alice_id) 3600" 5
            unreachable_db] by blast
qed

text \<open>
  Claim C4, as the code has it. On a token that \<^verbatim>\<open>jwt.decode\<close> accepts (signature valid,
  not expired), \<open>decode_token\<close> raises the 401 exception when \<^verbatim>\<open>sub\<close> is missing or null.
  An empty string under \<^verbatim>\<open>sub\<close> it returns; the caller \<open>get_current_user\<close> is the one that
  rejects it, with the 401 exception and without a round trip to the store.
\<close>

theorem decode_token_rejects_missing_sub:
  "jwt_decode L token (SECRET_KEY S) [ALGORITHM] now = Inr payload \<longrightarrow>
     (payload ''sub'' = None \<or> payload ''sub'' = Some VNone
        \<longrightarrow> decode_token L S token now = Inl credentials_exception)
   \<and> (payload ''sub'' = Some (VStr [])
        \<longrightarrow> decode_token L S token now = Inr (VStr [])
          \<and> get_current_user L S token now s = (Inl credentials_exception, s))"
  by (auto simp: decode_token_def get_current_user_def get_current_user_body_def)

text \<open>
  A token without \<^verbatim>\<open>sub\<close> is rejected by \<open>decode_token\<close>; one with the empty string is
  returned by it and rejected by \<open>get_current_user\<close>.
\<close>

theorem decode_token_rejects_missing_sub_witness:
  "decode_token reference_libs default_settings
       (JWS ''HS256'' [''exp'' \<mapsto> VInt 3600] ''your_super_secret_key'') 5
     = Inl credentials_exception
   \<and> decode_token reference_libs default_settings (token_for (VStr []) 3600) 5 = Inr (VStr [])
   \<and> get_current_user reference_libs default_settings (token_for (VStr []) 3600) 5 sample_db
     = (Inl credentials_exception, sample_db)"
proof -
  have a: "jwt_decode reference_libs (JWS ''HS256'' [''exp'' \<mapsto> VInt 3600] ''your_super_secret_key'')
         (SECRET_KEY default_settings) [ALGORITHM] 5 = Inr [''exp'' \<mapsto> VInt 3600]"
     and a': "[''exp'' \<mapsto> VInt 3600] ''sub'' = None"
    by (simp_all add: run)
  have b: "jwt_decode reference_libs (token_for (VStr []) 3600) (SECRET_KEY default_settings)
       [ALGORITHM] 5 = Inr [''sub'' \<mapsto> VStr [], ''exp'' \<mapsto> VInt 3600]"
     and b': "[''sub'' \<mapsto> VStr [], ''exp'' \<mapsto> VInt 3600] ''sub'' = Some (VStr [])"
    by (simp_all add: run)
  show ?thesis
    using decode_token_rejects_missing_sub[of reference_libs "JWS ''HS256'' [''exp'' \<mapsto> VInt 3600] ''your_super_secret_key''"
             default_settings 5 "[''exp'' \<mapsto> VInt 3600]" sample_db] a a'
       decode_token_rejects_missing_sub[of reference_libs "token_for (VStr []) 3600" default_settings 5
             "[''sub'' \<mapsto> VStr [], ''exp'' \<mapsto> VInt 3600]" sample_db] b b'
    by blast
qed

text \<open>
  The claim as stated fails: the token is accepted by \<^verbatim>\<open>jwt.decode\<close>, its \<^verbatim>\<open>sub\<close> is the
  empty string, and \<open>decode_token\<close> returns that string as the subject id.
\<close>

theorem decode_token_returns_empty_sub:
  "jwt_decode reference_libs (token_for (VStr []) 3600) (SECRET_KEY default_settings)
       [ALGORITHM] 5 = Inr [''sub'' \<mapsto> VStr [], ''exp'' \<mapsto> VInt 3600]
   \<and> decode_token reference_libs default_settings (token_for (VStr []) 3600) 5 = Inr (VStr [])"
  by (simp add: run)

text \<open>
  Claim C9, where the code departs from it. When the round trip of the lookup fails,
  \<open>get_user_by_id\<close> raises a 500 \<^verbatim>\<open>HTTPException\<close>, but the \<^verbatim>\<open>except Exception\<close> of
  \<open>get_current_user\<close> catches it and raises the 401 \<open>credentials_exception\<close>: the
  failure of the store is reported as Unauthorized. \<open>authenticate_user\<close> on the same
  store lets the 500 through.
\<close>

theorem store_failure_reported_as_unauthorized:
  "decode_token L S token now = Inr (VStr uid) \<and> is_valid L uid \<and> faults s = True # fs \<longrightarrow>
     fst (get_user_by_id L uid s)
       = Inl (HTTPException 500 (''Error fetching user by ID: '' @ exn_str L PyMongoError) [])
   \<and> fst (get_current_user L S token now s) = Inl credentials_exception
   \<and> (\<forall>un pw. fst (authenticate_user L un pw s)
        = Inl (HTTPException 500 (''Error fetching user by email: '' @ exn_str L PyMongoError) []))"
  by (auto simp: get_current_user_def get_current_user_body_def get_user_by_id_def
        authenticate_user_def get_user_by_username_def
        find_one_def round_trip_def is_valid_def Let_def split: sum.splits)

text \<open>
  Alice's valid token resolves to alice on the store that answers, and to the 401 on
  the store that cannot be reached.
\<close>

theorem store_failure_reported_as_unauthorized_witness:
  "fst (get_user_by_id reference_libs alice_id unreachable_db)
     = Inl (HTTPException 500 ''Error fetching user by ID: connection refused'' [])
   \<and> fst (get_current_user reference_libs default_settings (token_for (VStr alice_id) 3600) 5
            unreachable_db) = Inl credentials_exception
   \<and> fst (authenticate_user reference_libs ''alice'' ''secret'' unreachable_db)
     = Inl (HTTPException 500 ''Error fetching user by email: connection refused'' [])
   \<and> fst (get_current_user reference_libs default_settings (token_for (VStr alice_id) 3600) 5
            sample_db) = Inr alice"
proof -
  have h: "decode_token reference_libs default_settings (token_for (VStr alice_id) 3600) 5
          = Inr (VStr alice_id)" "is_valid reference_libs alice_id"
      "faults unreachable_db = True # []"
      "exn_str reference_libs PyMongoError = ''connection refused''"
    by (simp_all add: run)
  have ok: "fst (get_current_user reference_libs default_settings (token_for (VStr alice_id) 3600)
              5 sample_db) = Inr alice"
    by (simp add: run)
  show ?thesis
    using store_failure_reported_as_unauthorized[of reference_libs default_settings "token_for (VStr alice_id) 3600" 5 alice_id
             unreachable_db "[]"] h ok
    by simp
qed

section \<open>Registration and authentication\<close>

lemma check_if_user_exists_eq:
  assumes "round_trip s = (True, s1)"
  shows "check_if_user_exists un em True s =
     (case find (\<lambda>r. snd r ''username'' = Some (VStr un) \<or> snd r ''email'' = Some (VStr em))
             (users s) of
        None \<Rightarrow> (Inr False, s1)
      | Some r \<Rightarrow>
          if snd r ''username'' = Some (VStr un)
          then (Inl (HTTPException 400 ''Username already exists.'' []), s1)
          else (Inl (HTTPException 400 ''Email already exists.'' []), s1))"
proof -
  have k: "users s1 = users s"
    using round_trip_keeps(1)[of s] assms by simp
  show ?thesis
    using assms k
    by (auto simp: check_if_user_exists_def find_one_def split: option.splits
             dest: find_holds)
qed

text \<open>
  Claim C5, as the code has it. The one combined lookup returns the first stored user
  that matches the candidate's username or e-mail. When there is none the check passes.
  Otherwise the registration route raises the 400 "Username already exists." when that
  user has the candidate's username (also when it has the e-mail as well), and the 400
  "Email already exists." when it has not, in which case it has the candidate's
  e-mail; the users are left as they were. Here the server answers the lookup.
\<close>

theorem registration_error_from_first_match:
  "fst (round_trip s) \<longrightarrow>
     (find (\<lambda>r. snd r ''username'' = Some (VStr (new_username data))
               \<or> snd r ''email'' = Some (VStr (new_email data))) (users s) = None
        \<longrightarrow> fst (check_if_user_exists (new_username data) (new_email data) True s) = Inr False)
   \<and> (\<forall>r. find (\<lambda>r. snd r ''username'' = Some (VStr (new_username data))
                   \<or> snd r ''email'' = Some (VStr (new_email data))) (users s) = Some r
        \<longrightarrow> (snd r ''username'' = Some (VStr (new_username data))
               \<longrightarrow> fst (create_user_route L data now salt new_id s)
                     = Inl (HTTPException 400 ''Username already exists.'' []))
          \<and> (snd r ''username'' \<noteq> Some (VStr (new_username data))
               \<longrightarrow> snd r ''email'' = Some (VStr (new_email data))
                 \<and> fst (create_user_route L data now salt new_id s)
                     = Inl (HTTPException 400 ''Email already exists.'' []))
          \<and> users (snd (create_user_route L data now salt new_id s)) = users s)"
proof (intro impI)
  assume "fst (round_trip s)"
  then obtain s1 where rt: "round_trip s = (True, s1)"
    by (cases "round_trip s") auto
  have k: "users s1 = users s"
    using round_trip_keeps(1)[of s] rt by simp
  note eq = check_if_user_exists_eq[OF rt, of "new_username data" "new_email data"]
  show "(find (\<lambda>r. snd r ''username'' = Some (VStr (new_username data))
               \<or> snd r ''email'' = Some (VStr (new_email data))) (users s) = None
        \<longrightarrow> fst (check_if_user_exists (new_username data) (new_email data) True s) = Inr False)
   \<and> (\<forall>r. find (\<lambda>r. snd r ''username'' = Some (VStr (new_username data))
                   \<or> snd r ''email'' = Some (VStr (new_email data))) (users s) = Some r
        \<longrightarrow> (snd r ''username'' = Some (VStr (new_username data))
               \<longrightarrow> fst (create_user_route L data now salt new_id s)
                     = Inl (HTTPException 400 ''Username already exists.'' []))
          \<and> (snd r ''username'' \<noteq> Some (VStr (new_username data))
               \<longrightarrow> snd r ''email'' = Some (VStr (new_email data))
                 \<and> fst (create_user_route L data now salt new_id s)
                     = Inl (HTTPException 400 ''Email already exists.'' []))
          \<and> users (snd (create_user_route L data now salt new_id s)) = users s)"
    using k by (auto simp: eq create_user_route_def dest: find_holds)
qed

text \<open>
  With alice (a@x.com) stored: alice with another e-mail is refused for the username,
  carol with alice's e-mail for the e-mail, and carol with a new e-mail passes.
\<close>

theorem registration_error_from_first_match_witness:
  "fst (create_user_route reference_libs (candidate ''alice'' ''b@x.com'') 9000000
          ''saltsaltsaltsaltsaltsa'' widget_id sample_db)
     = Inl (HTTPException 400 ''Username already exists.'' [])
   \<and> fst (create_user_route reference_libs (candidate ''carol'' ''a@x.com'') 9000000
          ''saltsaltsaltsaltsaltsa'' widget_id sample_db)
     = Inl (HTTPException 400 ''Email already exists.'' [])
   \<and> fst (check_if_user_exists ''carol'' ''c@x.com'' True sample_db) = Inr False"
proof (intro conjI)
  have rt: "fst (round_trip sample_db)"
    by (simp add: run)
  have "find (\<lambda>r. snd r ''username'' = Some (VStr (new_username (candidate ''alice'' ''b@x.com'')))
                 \<or> snd r ''email'' = Some (VStr (new_email (candidate ''alice'' ''b@x.com''))))
          (users sample_db) = Some (alice_id, alice_doc)"
       "snd (alice_id, alice_doc) ''username''
          = Some (VStr (new_username (candidate ''alice'' ''b@x.com'')))"
    by (simp_all add: run)
  then show "fst (create_user_route reference_libs (candidate ''alice'' ''b@x.com'') 9000000
          ''saltsaltsaltsaltsaltsa'' widget_id sample_db)
     = Inl (HTTPException 400 ''Username already exists.'' [])"
    using registration_error_from_first_match[of sample_db "candidate ''alice'' ''b@x.com''" reference_libs 9000000
             "''saltsaltsaltsaltsaltsa''" widget_id] rt
    by blast
  have "find (\<lambda>r. snd r ''username'' = Some (VStr (new_username (candidate ''carol'' ''a@x.com'')))
                 \<or> snd r ''email'' = Some (VStr (new_email (candidate ''carol'' ''a@x.com''))))
          (users sample_db) = Some (alice_id, alice_doc)"
       "snd (alice_id, alice_doc) ''username''
          \<noteq> Some (VStr (new_username (candidate ''carol'' ''a@x.com'')))"
    by (simp_all add: run)
  then show "fst (create_user_route reference_libs (candidate ''carol'' ''a@x.com'') 9000000
          ''saltsaltsaltsaltsaltsa'' widget_id sample_db)
     = Inl (HTTPException 400 ''Email already exists.'' [])"
    using registration_error_from_first_match[of sample_db "candidate ''carol'' ''a@x.com''" reference_libs 9000000
             "''saltsaltsaltsaltsaltsa''" widget_id] rt
    by blast
  have "find (\<lambda>r. snd r ''username'' = Some (VStr (new_username (candidate ''carol'' ''c@x.com'')))
                 \<or> snd r ''email'' = Some (VStr (new_email (candidate ''carol'' ''c@x.com''))))
          (users sample_db) = None"
       "new_username (candidate ''carol'' ''c@x.com'') = ''carol''"
       "new_email (candidate ''carol'' ''c@x.com'') = ''c@x.com''"
    by (simp_all add: run)
  then show "fst (check_if_user_exists ''carol'' ''c@x.com'' True sample_db) = Inr False"
    using registration_error_from_first_match[of sample_db "candidate ''carol'' ''c@x.com''" reference_libs 9000000
             "''saltsaltsaltsaltsaltsa''" widget_id] rt
    by simp
qed

text \<open>
  The claim as stated fails: bob is a stored user with the candidate's username, yet
  the candidate (bob, a@x.com) is refused for the e-mail, because the lookup returns
  alice, who is stored first and has that e-mail.
\<close>

theorem email_taken_despite_username_match:
  "(bob_id, bob_doc) \<in> set (users sample_db)
   \<and> bob_doc ''username'' = Some (VStr ''bob'')
   \<and> fst (round_trip sample_db)
   \<and> fst (create_user_route reference_libs (candidate ''bob'' ''a@x.com'') 9000000
            ''saltsaltsaltsaltsaltsa'' widget_id sample_db)
       = Inl (HTTPException 400 ''Email already exists.'' [])"
  by (simp add: run)

text \<open>
  Claim C6. A call of \<open>authenticate_user\<close> with a username that no stored user has and
  a call with a known username and a password that does not verify return the same
  result, \<^verbatim>\<open>None\<close>.
\<close>

theorem authenticate_failures_alike:
  "fst (get_user_by_username L unknown_name s) = Inr None
   \<and> fst (get_user_by_username L known_name s') = Inr (Some u)
   \<and> verify_password L wrong_password (password u) = Inr False
   \<longrightarrow> fst (authenticate_user L unknown_name any_password s) = Inr None
     \<and> fst (authenticate_user L known_name wrong_password s') = Inr None"
  by (auto simp: authenticate_user_def split: prod.splits sum.splits option.splits)

text \<open>
  The examples of the specification: ("nobody", "anything") and ("alice", "wrongpass").
\<close>

theorem authenticate_failures_alike_witness:
  "fst (authenticate_user reference_libs ''nobody'' ''anything'' sample_db) = Inr None
   \<and> fst (authenticate_user reference_libs ''alice'' ''wrongpass'' sample_db) = Inr None"
proof -
  have "fst (get_user_by_username reference_libs ''nobody'' sample_db) = Inr None"
    "fst (get_user_by_username reference_libs ''alice'' sample_db) = Inr (Some alice)"
    "verify_password reference_libs ''wrongpass'' (password alice) = Inr False"
    by (simp_all add: run)
  then show ?thesis
    using authenticate_failures_alike[of reference_libs "''nobody''" sample_db "''alice''" sample_db alice
             "''wrongpass''" "''anything''"]
    by blast
qed

section \<open>Passwords and tokens\<close>

text \<open>
  Claim C3, as the code has it. \<open>verify_password\<close> returns what the hashing library
  returns and raises what it raises: it has no handler, and neither has
  \<open>authenticate_user\<close>, which returns \<^verbatim>\<open>None\<close> on the library's \<^verbatim>\<open>False\<close> and lets the
  library's exception through. With passlib, the result is \<^verbatim>\<open>False\<close> for an absent hash,
  the \<^verbatim>\<open>UnknownHashError\<close> for a stored value that is not a bcrypt hash, and what the
  bcrypt scheme gives (a boolean, \<^verbatim>\<open>False\<close> on a mismatch, or its own error on a hash it
  cannot parse) otherwise.
\<close>

theorem verify_password_propagates_errors:
  "verify_password L p h = pwd_verify L p h
   \<and> (\<forall>un s u. fst (get_user_by_username L un s) = Inr (Some u)
               \<and> pwd_verify L p (password u) = Inr False
          \<longrightarrow> fst (authenticate_user L un p s) = Inr None)
   \<and> (\<forall>un s u e. fst (get_user_by_username L un s) = Inr (Some u)
               \<and> pwd_verify L p (password u) = Inl e
          \<longrightarrow> fst (authenticate_user L un p s) = Inl e)
   \<and> (pwd_verify L = passlib_verify scheme_verify \<longrightarrow>
          verify_password L p None = Inr False
        \<and> (\<forall>x. \<not> bcrypt_identify x \<longrightarrow> verify_password L p (Some x) = Inl UnknownHashError)
        \<and> (\<forall>x. bcrypt_identify x \<longrightarrow> verify_password L p (Some x) = scheme_verify p x))"
  by (auto simp: verify_password_def passlib_verify_def authenticate_user_def
           split: prod.splits sum.splits option.splits)

text \<open>
  Against alice's well-formed hash a wrong password gives \<^verbatim>\<open>False\<close>, and
  \<open>authenticate_user\<close> returns \<^verbatim>\<open>None\<close>; bob's stored value is not a hash, and
  authenticating as bob raises.
\<close>

theorem verify_password_propagates_errors_witness:
  "verify_password reference_libs ''secret'' None = Inr False
   \<and> verify_password reference_libs ''wrongpass'' (Some alice_hash) = Inr False
   \<and> fst (authenticate_user reference_libs ''alice'' ''wrongpass'' sample_db) = Inr None
   \<and> verify_password reference_libs ''secret'' (Some ''corrupted'') = Inl UnknownHashError
   \<and> fst (authenticate_user reference_libs ''bob'' ''secret'' sample_db) = Inl UnknownHashError"
proof -
  have l: "pwd_verify reference_libs = passlib_verify plain_bcrypt_verify"
    by (simp add: run)
  have w: "bcrypt_identify alice_hash"
    "plain_bcrypt_verify ''wrongpass'' alice_hash = Inr False"
    "fst (get_user_by_username reference_libs ''alice'' sample_db) = Inr (Some alice)"
    "password alice = Some alice_hash"
    by (simp_all add: run)
  have c: "\<not> bcrypt_identify ''corrupted''"
    "fst (get_user_by_username reference_libs ''bob'' sample_db) = Inr (Some bob)"
    "password bob = Some ''corrupted''"
    by (simp_all add: run)
  note t1 = verify_password_propagates_errors[of reference_libs "''secret''" _ plain_bcrypt_verify]
  note t2 = verify_password_propagates_errors[of reference_libs "''wrongpass''" _ plain_bcrypt_verify]
  have 1: "verify_password reference_libs ''secret'' None = Inr False"
    using t1[of None] l by blast
  have 3: "verify_password reference_libs ''wrongpass'' (Some alice_hash) = Inr False"
    using t2[of None] l w by simp
  have "pwd_verify reference_libs ''wrongpass'' (password alice) = Inr False"
    using 3 t2[of "Some alice_hash"] w(4) by simp
  then have 4: "fst (authenticate_user reference_libs ''alice'' ''wrongpass'' sample_db) = Inr None"
    using t2[of None] w(3) by blast
  have 5: "verify_password reference_libs ''secret'' (Some ''corrupted'') = Inl UnknownHashError"
    using t1[of None] l c by blast
  have "pwd_verify reference_libs ''secret'' (password bob) = Inl UnknownHashError"
    using 5 t1[of "Some ''corrupted''"] c(3) by simp
  then have 6: "fst (authenticate_user reference_libs ''bob'' ''secret'' sample_db)
                  = Inl UnknownHashError"
    using t1[of None] c(2) by blast
  show ?thesis using 1 3 4 5 6 by blast
qed

text \<open>
  The claim as stated fails: on a corrupted stored hash \<open>verify_password\<close> raises
  \<^verbatim>\<open>UnknownHashError\<close>, and so does \<open>authenticate_user\<close>.
\<close>

theorem verify_password_raises_on_corrupted_hash:
  "verify_password reference_libs ''secret'' (Some ''corrupted'') = Inl UnknownHashError
   \<and> fst (authenticate_user reference_libs ''bob'' ''secret'' sample_db) = Inl UnknownHashError"
  by (simp add: run)

text \<open>
  Claim C7, as the code has it. Take a subject id, a clock reading \<open>now\<close> and a time to
  live \<open>T\<close> that is given and not zero, or absent and then the configured number of
  minutes. When \<open>now + T\<close> is a datetime (years 1 to 9999), \<open>create_access_token\<close> hands the
  signer exactly the claims \<^verbatim>\<open>sub\<close> and \<^verbatim>\<open>exp = now + T\<close>; the token carries \<^verbatim>\<open>exp\<close> in whole
  seconds, \<open>(now + T) div 1000000\<close>; \<open>decode_token\<close> returns the subject id at every time
  before that second begins and raises the 401 "Token has expired" from then on. When
  \<open>now + T\<close> is not a datetime, or the configured minutes are not a timedelta,
  \<open>create_access_token\<close> raises \<^verbatim>\<open>OverflowError\<close> and issues no token.
\<close>

theorem token_expiry_in_whole_seconds:
  "(jwt_encode L = pyjwt_encode \<and> jwt_decode L = pyjwt_decode \<and> expires_delta \<noteq> Some 0
     \<and> datetime_min \<le> now \<and> now \<le> datetime_max
     \<and> timedelta_min \<le> T \<and> T \<le> timedelta_max
     \<and> (case expires_delta of
           None \<Rightarrow> timedelta_minutes (ACCESS_TOKEN_EXPIRE_MINUTES S) | Some d \<Rightarrow> Inr d) = Inr T
   \<longrightarrow> (datetime_min \<le> now + T \<and> now + T \<le> datetime_max \<longrightarrow>
         (\<forall>enc. create_access_token (L\<lparr>jwt_encode := enc\<rparr>) S [''sub'' \<mapsto> VStr uid]
                   expires_delta now
            = enc [''sub'' \<mapsto> VStr uid, ''exp'' \<mapsto> VDatetime (now + T)] (SECRET_KEY S) ALGORITHM)
       \<and> create_access_token L S [''sub'' \<mapsto> VStr uid] expires_delta now
           = Inr (JWS ALGORITHM [''sub'' \<mapsto> VStr uid, ''exp'' \<mapsto> VInt ((now + T) div 1000000)]
                    (SECRET_KEY S))
       \<and> (\<forall>t. t < (now + T) div 1000000 * 1000000 \<longrightarrow>
             decode_token L S (JWS ALGORITHM
                 [''sub'' \<mapsto> VStr uid, ''exp'' \<mapsto> VInt ((now + T) div 1000000)] (SECRET_KEY S)) t
               = Inr (VStr uid))
       \<and> (\<forall>t. (now + T) div 1000000 * 1000000 \<le> t \<longrightarrow>
             decode_token L S (JWS ALGORITHM
                 [''sub'' \<mapsto> VStr uid, ''exp'' \<mapsto> VInt ((now + T) div 1000000)] (SECRET_KEY S)) t
               = Inl (HTTPException 401 ''Token has expired'' [])))
     \<and> (now + T < datetime_min \<or> datetime_max < now + T \<longrightarrow>
           create_access_token L S [''sub'' \<mapsto> VStr uid] expires_delta now = Inl OverflowError))
   \<and> (timedelta_minutes (ACCESS_TOKEN_EXPIRE_MINUTES S) = Inl OverflowError \<longrightarrow>
         create_access_token L S [''sub'' \<mapsto> VStr uid] None now = Inl OverflowError)"
  by (auto simp: create_access_token_def decode_token_def pyjwt_encode_def pyjwt_decode_def
        validate_sub_def numeric_date_def datetime_add_def split: option.splits)

text \<open>
  Issued at 1.5 s for one second, the token expires when second 2 begins; issued
  without a time to live, it lasts the configured 60 minutes; asked at 1.5 s for three
  million days, \<open>create_access_token\<close> raises.
\<close>

theorem token_expiry_in_whole_seconds_witness:
  "create_access_token reference_libs default_settings [''sub'' \<mapsto> VStr alice_id]
        (Some 1000000) 1500000 = Inr (token_for (VStr alice_id) 2)
   \<and> decode_token reference_libs default_settings (token_for (VStr alice_id) 2) 1999999
     = Inr (VStr alice_id)
   \<and> decode_token reference_libs default_settings (token_for (VStr alice_id) 2) 2000000
     = Inl (HTTPException 401 ''Token has expired'' [])
   \<and> create_access_token reference_libs default_settings [''sub'' \<mapsto> VStr alice_id] None 0
     = Inr (token_for (VStr alice_id) 3600)
   \<and> create_access_token reference_libs default_settings [''sub'' \<mapsto> VStr alice_id]
        (Some (3000000 * 86400 * 1000000)) 1500000 = Inl OverflowError"
proof -
  have l: "jwt_encode reference_libs = pyjwt_encode" "jwt_decode reference_libs = pyjwt_decode"
    by (simp_all add: run)
  have r: "datetime_min \<le> (1500000::int) \<and> (1500000::int) \<le> datetime_max"
    "datetime_min \<le> (0::int) \<and> (0::int) \<le> datetime_max"
    "timedelta_min \<le> (1000000::int) \<and> (1000000::int) \<le> timedelta_max"
    "timedelta_min \<le> (3600000000::int) \<and> (3600000000::int) \<le> timedelta_max"
    "timedelta_min \<le> (3000000 * 86400 * 1000000::int)
       \<and> (3000000 * 86400 * 1000000::int) \<le> timedelta_max"
    "datetime_min \<le> (1500000 + 1000000::int) \<and> (1500000 + 1000000::int) \<le> datetime_max"
    "datetime_min \<le> (0 + 3600000000::int) \<and> (0 + 3600000000::int) \<le> datetime_max"
    "datetime_max < (1500000 + 3000000 * 86400 * 1000000::int)"
    by (simp_all add: datetime_min_def datetime_max_def timedelta_min_def timedelta_max_def)
  have m: "timedelta_minutes (ACCESS_TOKEN_EXPIRE_MINUTES default_settings) = Inr 3600000000"
    by (simp add: run)
  have k: "token_for (VStr alice_id) 2
       = JWS ALGORITHM [''sub'' \<mapsto> VStr alice_id, ''exp'' \<mapsto> VInt ((1500000 + 1000000) div 1000000)]
           (SECRET_KEY default_settings)"
     "token_for (VStr alice_id) 3600
       = JWS ALGORITHM [''sub'' \<mapsto> VStr alice_id, ''exp'' \<mapsto> VInt ((0 + 3600000000) div 1000000)]
           (SECRET_KEY default_settings)"
    by (simp_all add: token_for_def ALGORITHM_def default_settings_def)
  note a = token_expiry_in_whole_seconds[of reference_libs "Some 1000000" 1500000 1000000
             default_settings alice_id, THEN conjunct1]
  note b = token_expiry_in_whole_seconds[of reference_libs None 0 3600000000
             default_settings alice_id, THEN conjunct1]
  note c = token_expiry_in_whole_seconds[of reference_libs "Some (3000000 * 86400 * 1000000)"
             1500000 "3000000 * 86400 * 1000000" default_settings alice_id, THEN conjunct1]
  have 1: "create_access_token reference_libs default_settings [''sub'' \<mapsto> VStr alice_id]
        (Some 1000000) 1500000 = Inr (token_for (VStr alice_id) 2)"
    using a l r(1,3,6) unfolding k by simp
  have 2: "decode_token reference_libs default_settings (token_for (VStr alice_id) 2) 1999999
     = Inr (VStr alice_id)"
    using a l r(1,3,6) unfolding k by simp
  have 3: "decode_token reference_libs default_settings (token_for (VStr alice_id) 2) 2000000
     = Inl (HTTPException 401 ''Token has expired'' [])"
    using a l r(1,3,6) unfolding k by simp
  have 4: "create_access_token reference_libs default_settings [''sub'' \<mapsto> VStr alice_id] None 0
     = Inr (token_for (VStr alice_id) 3600)"
    using b l r(2,4,7) m unfolding k by simp
  have 5: "create_access_token reference_libs default_settings [''sub'' \<mapsto> VStr alice_id]
        (Some (3000000 * 86400 * 1000000)) 1500000 = Inl OverflowError"
    using c l r(1,5,8) by simp
  show ?thesis using 1 2 3 4 5 by blast
qed

text \<open>
  The claim as stated fails twice. A time to live of zero is taken as absent: the
  token issued at time 0 lasts 60 minutes and verifies at 1 s, after \<open>now + T\<close>. And the
  token issued at 1.5 s for one second is refused as expired at 2.2 s, before
  \<open>now + T\<close> = 2.5 s.
\<close>

theorem token_expiry_not_at_now_plus_ttl:
  "create_access_token reference_libs default_settings [''sub'' \<mapsto> VStr alice_id] (Some 0) 0
     = Inr (token_for (VStr alice_id) 3600)
   \<and> decode_token reference_libs default_settings (token_for (VStr alice_id) 3600) 1000000
     = Inr (VStr alice_id)
   \<and> create_access_token reference_libs default_settings [''sub'' \<mapsto> VStr alice_id]
        (Some 1000000) 1500000 = Inr (token_for (VStr alice_id) 2)
   \<and> decode_token reference_libs default_settings (token_for (VStr alice_id) 2) 2200000
     = Inl (HTTPException 401 ''Token has expired'' [])"
  by (simp add: run)

end
